theory Spec2Isabelle
  imports Complex_Main "HOL-Library.AList"
begin

section \<open>Python values, exceptions and strings\<close>

text \<open>
  The gateway passes decoded JSON and result dictionaries around as untyped Python
  values. One datatype covers them: \<open>JNull\<close> is \<open>None\<close>, a \<open>JDict\<close> is a
  dictionary in insertion order (looked up with \<open>map_of\<close>, changed with
  \<open>AList.update\<close>, which overwrites in place or appends, as assignment to a Python
  dictionary does). A \<open>string\<close> is a Python \<open>str\<close> restricted to ASCII; a character
  outside ASCII in a literal of the source is written \<open><U+XXXX>\<close>.
\<close>

datatype json =
    JNull
  | JBool bool
  | JInt int
  | JFloat real
  | JStr string
  | JList "json list"
  | JDict "(string \<times> json) list"

type_synonym pydict = "(string \<times> json) list"

text \<open>Truthiness, as \<open>if x\<close>, \<open>not x\<close> and \<open>x or y\<close> test it.\<close>

fun truthy :: "json \<Rightarrow> bool" where
  "truthy JNull = False"
| "truthy (JBool b) = b"
| "truthy (JInt i) = (i \<noteq> 0)"
| "truthy (JFloat x) = (x \<noteq> 0)"
| "truthy (JStr s) = (s \<noteq> [])"
| "truthy (JList xs) = (xs \<noteq> [])"
| "truthy (JDict d) = (d \<noteq> [])"

definition py_or :: "json \<Rightarrow> json \<Rightarrow> json" where
  "py_or x y = (if truthy x then x else y)"

text \<open>An optional string (\<open>Optional[str]\<close>) as a value, and its truthiness.\<close>

definition opt_str :: "string option \<Rightarrow> json" where
  "opt_str v = (case v of None \<Rightarrow> JNull | Some s \<Rightarrow> JStr s)"

definition opt_bool :: "bool option \<Rightarrow> json" where
  "opt_bool v = (case v of None \<Rightarrow> JNull | Some b \<Rightarrow> JBool b)"

definition truthy_str :: "string option \<Rightarrow> bool" where
  "truthy_str v = (case v of None \<Rightarrow> False | Some s \<Rightarrow> s \<noteq> [])"

text \<open>
  Exceptions are values; each carries the text \<open>str(e)\<close> gives. \<open>HttpxTimeout\<close> is
  \<open>httpx.TimeoutException\<close>, \<open>TimeoutError\<close> the built-in one that \<open>http.client\<close>
  raises. The wording of the interpreter's own messages is approximate.
\<close>

datatype py_exc =
    HttpxTimeout string
  | TimeoutError string
  | KeyError string
  | IndexError string
  | AttributeError string
  | TypeError string
  | ValueError string
  | OtherException string

fun str_exc :: "py_exc \<Rightarrow> string" where
  "str_exc (HttpxTimeout m) = m"
| "str_exc (TimeoutError m) = m"
| "str_exc (KeyError m) = m"
| "str_exc (IndexError m) = m"
| "str_exc (AttributeError m) = m"
| "str_exc (TypeError m) = m"
| "str_exc (ValueError m) = m"
| "str_exc (OtherException m) = m"

text \<open>Sequencing of steps that may raise: the first exception ends the block.\<close>

definition and_then :: "py_exc + 'a \<Rightarrow> ('a \<Rightarrow> py_exc + 'b) \<Rightarrow> py_exc + 'b" where
  "and_then m f = (case m of Inl e \<Rightarrow> Inl e | Inr x \<Rightarrow> f x)"

fun type_name :: "json \<Rightarrow> string" where
  "type_name JNull = ''NoneType''"
| "type_name (JBool b) = ''bool''"
| "type_name (JInt i) = ''int''"
| "type_name (JFloat x) = ''float''"
| "type_name (JStr s) = ''str''"
| "type_name (JList xs) = ''list''"
| "type_name (JDict d) = ''dict''"

text \<open>A name in single quotes, as the interpreter's messages show one.\<close>

definition quoted :: "string \<Rightarrow> string" where
  "quoted s = CHR 0x27 # s @ [CHR 0x27]"

text \<open>\<open>x.get(k, default)\<close>: only a dictionary has the method.\<close>

definition py_get :: "json \<Rightarrow> string \<Rightarrow> json \<Rightarrow> py_exc + json" where
  "py_get x k dflt =
     (case x of
        JDict d \<Rightarrow> Inr (case map_of d k of Some v \<Rightarrow> v | None \<Rightarrow> dflt)
      | _ \<Rightarrow> Inl (AttributeError (quoted (type_name x) @ '' object has no attribute '' @ quoted ''get'')))"

text \<open>\<open>x[k]\<close> with a string key.\<close>

definition py_item :: "json \<Rightarrow> string \<Rightarrow> py_exc + json" where
  "py_item x k =
     (case x of
        JDict d \<Rightarrow> (case map_of d k of Some v \<Rightarrow> Inr v | None \<Rightarrow> Inl (KeyError (quoted k)))
      | JList xs \<Rightarrow> Inl (TypeError ''list indices must be integers or slices, not str'')
      | JStr s \<Rightarrow> Inl (TypeError (''string indices must be integers, not '' @ quoted ''str''))
      | _ \<Rightarrow> Inl (TypeError (quoted (type_name x) @ '' object is not subscriptable'')))"

text \<open>\<open>x[0]\<close>. A decoded JSON object has string keys only, so \<open>0\<close> is never a key of it.\<close>

definition py_first :: "json \<Rightarrow> py_exc + json" where
  "py_first x =
     (case x of
        JList xs \<Rightarrow> (case xs of [] \<Rightarrow> Inl (IndexError ''list index out of range'') | v # _ \<Rightarrow> Inr v)
      | JStr s \<Rightarrow> (case s of [] \<Rightarrow> Inl (IndexError ''string index out of range'') | c # _ \<Rightarrow> Inr (JStr [c]))
      | JDict d \<Rightarrow> Inl (KeyError ''0'')
      | _ \<Rightarrow> Inl (TypeError (quoted (type_name x) @ '' object is not subscriptable'')))"

text \<open>\<open>for part in x\<close>: the elements of a list, the characters of a string, the keys of
  a dictionary.\<close>

definition py_iter :: "json \<Rightarrow> py_exc + json list" where
  "py_iter x =
     (case x of
        JList xs \<Rightarrow> Inr xs
      | JStr s \<Rightarrow> Inr (map (\<lambda>c. JStr [c]) s)
      | JDict d \<Rightarrow> Inr (map (\<lambda>kv. JStr (fst kv)) d)
      | _ \<Rightarrow> Inl (TypeError (quoted (type_name x) @ '' object is not iterable'')))"

fun is_substring :: "string \<Rightarrow> string \<Rightarrow> bool" where
  "is_substring k [] = (k = [])"
| "is_substring k (c # cs) = (take (length k) (c # cs) = k \<or> is_substring k cs)"

text \<open>\<open>k in x\<close> for a string \<open>k\<close>: key of a dictionary, element of a list, substring of
  a string.\<close>

definition py_in :: "string \<Rightarrow> json \<Rightarrow> py_exc + bool" where
  "py_in k x =
     (case x of
        JDict d \<Rightarrow> Inr (k \<in> set (map fst d))
      | JList xs \<Rightarrow> Inr (JStr k \<in> set xs)
      | JStr s \<Rightarrow> Inr (is_substring k s)
      | _ \<Rightarrow> Inl (TypeError (''argument of type '' @ quoted (type_name x) @ '' is not iterable'')))"

subsection \<open>Strings\<close>

definition digit_chars :: string where
  "digit_chars = ''0123456789''"

fun str_nat :: "nat \<Rightarrow> string" where
  "str_nat n = (if n < 10 then [digit_chars ! n] else str_nat (n div 10) @ [digit_chars ! (n mod 10)])"

declare str_nat.simps [simp del]

definition str_int :: "int \<Rightarrow> string" where
  "str_int i = (if i < 0 then ''-'' @ str_nat (nat (- i)) else str_nat (nat i))"

text \<open>
  \<open>str(x)\<close>, as an f-string shows a value: a string as it is, the other values as the
  interpreter prints them. (Escapes inside the strings of a nested value and the digits of
  a float are not modelled.)
\<close>

fun join_with :: "string \<Rightarrow> string list \<Rightarrow> string" where
  "join_with sep [] = []"
| "join_with sep [x] = x"
| "join_with sep (x # y # ys) = x @ sep @ join_with sep (y # ys)"

fun py_repr :: "json \<Rightarrow> string" where
  "py_repr JNull = ''None''"
| "py_repr (JBool b) = (if b then ''True'' else ''False'')"
| "py_repr (JInt i) = str_int i"
| "py_repr (JFloat x) = ''<float>''"
| "py_repr (JStr s) = quoted s"
| "py_repr (JList xs) = ''['' @ join_with '', '' (map py_repr xs) @ '']''"
| "py_repr (JDict d) = ''{'' @ join_with '', '' (map (\<lambda>kv. quoted (fst kv) @ '': '' @ py_repr (snd kv)) d) @ ''}''"

definition py_str :: "json \<Rightarrow> string" where
  "py_str x = (case x of JStr s \<Rightarrow> s | _ \<Rightarrow> py_repr x)"

text \<open>The ASCII characters \<open>str.strip()\<close> and \<open>str.split()\<close> treat as whitespace.\<close>

definition is_space :: "char \<Rightarrow> bool" where
  "is_space c = (c \<in> set [CHR '' '', CHR 0x09, CHR 0x0A, CHR 0x0B, CHR 0x0C, CHR 0x0D,
                           CHR 0x1C, CHR 0x1D, CHR 0x1E, CHR 0x1F])"

definition py_strip :: "string \<Rightarrow> string" where
  "py_strip s = rev (dropWhile is_space (rev (dropWhile is_space s)))"

definition startswith :: "string \<Rightarrow> string \<Rightarrow> bool" where
  "startswith s p = (take (length p) s = p)"

definition upper_char :: "char \<Rightarrow> char" where
  "upper_char c =
     (case map_of (zip ''abcdefghijklmnopqrstuvwxyz'' ''ABCDEFGHIJKLMNOPQRSTUVWXYZ'') c of
        Some u \<Rightarrow> u | None \<Rightarrow> c)"

definition py_upper :: "string \<Rightarrow> string" where
  "py_upper s = map upper_char s"

definition lower_char :: "char \<Rightarrow> char" where
  "lower_char c =
     (case map_of (zip ''ABCDEFGHIJKLMNOPQRSTUVWXYZ'' ''abcdefghijklmnopqrstuvwxyz'') c of
        Some l \<Rightarrow> l | None \<Rightarrow> c)"

definition py_lower :: "string \<Rightarrow> string" where
  "py_lower s = map lower_char s"

text \<open>\<open>s.rstrip("/")\<close>.\<close>

definition rstrip_slash :: "string \<Rightarrow> string" where
  "rstrip_slash s = rev (dropWhile (\<lambda>c. c = CHR ''/'') (rev s))"

text \<open>\<open>s.split(sep)\<close> for a one-character separator: never an empty list.\<close>

fun py_split :: "char \<Rightarrow> string \<Rightarrow> string list" where
  "py_split sep [] = [[]]"
| "py_split sep (c # cs) =
     (if c = sep then [] # py_split sep cs
      else (case py_split sep cs of p # ps \<Rightarrow> (c # p) # ps | [] \<Rightarrow> [[c]]))"

text \<open>\<open>parts[i]\<close> on a list of strings.\<close>

definition list_item :: "'a list \<Rightarrow> nat \<Rightarrow> py_exc + 'a" where
  "list_item xs i = (if i < length xs then Inr (xs ! i) else Inl (IndexError ''list index out of range''))"

text \<open>
  \<open>int(s)\<close> in base ten: surrounding whitespace is dropped, one sign is allowed, and single
  underscores may stand between digits. (The interpreter's cap on the number of digits
  and digits outside ASCII are not modelled.)
\<close>

definition digit_of :: "char \<Rightarrow> nat option" where
  "digit_of c = map_of (zip digit_chars [0, 1, 2, 3, 4, 5, 6, 7, 8, 9]) c"

fun parse_digits :: "nat \<Rightarrow> bool \<Rightarrow> string \<Rightarrow> nat option" where
  "parse_digits acc ok [] = (if ok then Some acc else None)"
| "parse_digits acc ok (c # cs) =
     (case digit_of c of
        Some d \<Rightarrow> parse_digits (10 * acc + d) True cs
      | None \<Rightarrow> if c = CHR ''_'' \<and> ok \<and> cs \<noteq> [] then parse_digits acc False cs else None)"

definition py_int :: "string \<Rightarrow> py_exc + int" where
  "py_int s =
     (let t = py_strip s;
          neg = (t \<noteq> [] \<and> hd t = CHR ''-'');
          ds = (if t \<noteq> [] \<and> (hd t = CHR ''-'' \<or> hd t = CHR ''+'') then tl t else t)
      in case parse_digits 0 False ds of
           None \<Rightarrow> Inl (ValueError (''invalid literal for int() with base 10: '' @ quoted s))
         | Some n \<Rightarrow> Inr (if neg then - int n else int n))"

text \<open>
  \<open>int(round(a / b))\<close> for integers \<open>a \<ge> 0\<close> and \<open>b > 0\<close>: the quotient rounded to the
  nearest integer, a tie going to the even neighbour. Python takes the quotient as a
  binary64 number first; the integer is the same whenever the exact quotient is farther
  from a tie than the precision of binary64, as it is for every ratio of a few digits.
\<close>

definition round_div :: "int \<Rightarrow> int \<Rightarrow> int" where
  "round_div a b =
     (let q = a div b; r = a mod b
      in if 2 * r < b then q else if b < 2 * r then q + 1 else if even q then q else q + 1)"

section \<open>The network and the service objects\<close>

text \<open>
  An adapter performs at most one HTTP request per call. The network is a parameter: a
  function from the request to what the client library does with it, either an
  exception or a response with its status code, its body text and what decoding the
  body as JSON gives (a value, or the exception \<open>response.json()\<close> raises). Every adapter
  operation returns its result dictionary together with the list of requests it
  performed, so that "no network call" is the empty list. Debug printing is left out.
\<close>

record http_request =
  req_verb :: string
  req_url :: string
  req_headers :: "(string \<times> string) list"
  req_params :: "(string \<times> string) list"
  req_json :: json
  req_timeout :: int

datatype http_outcome =
    Raised py_exc
  | Response int string "py_exc + json"

type_synonym transport = "http_request \<Rightarrow> http_outcome"

text \<open>
  The service classes. A record holds the attributes \<open>__init__\<close> assigns; classes that
  share attribute names share the fields (\<open>api_key\<close> is the attribute of
  \<open>AIServiceBase\<close>, \<open>services/base.py\<close>).
\<close>

record AIServiceBase =
  api_key :: "string option"

record UrlService = AIServiceBase +
  base_url :: string

record ModelService = UrlService +
  model :: string

record EndpointService = ModelService +
  endpoint :: string

record GeminiImageService = EndpointService +
  auth_mode :: string

record MimoChatService = EndpointService +
  temperature :: real
  top_p :: real
  max_completion_tokens :: int

record VideoAnalysisService = EndpointService +
  host :: string

record VideoService = ModelService +
  create_endpoint :: string
  query_endpoint :: string

type_synonym DalleService = UrlService
type_synonym StableDiffusionService = UrlService
type_synonym ChatService = ModelService
type_synonym DoubaoImageService = EndpointService
type_synonym SoraVideoService = VideoService
type_synonym VeoVideoService = VideoService

text \<open>\<open>not self.api_key\<close>: the key is missing when it is \<open>None\<close> or the empty string.\<close>

definition no_key :: "string option \<Rightarrow> bool" where
  "no_key k = (\<not> truthy_str k)"

text \<open>The key in a header, once it is known to be a non-empty string.\<close>

definition key_text :: "string option \<Rightarrow> string" where
  "key_text k = (case k of Some s \<Rightarrow> s | None \<Rightarrow> ''None'')"

definition failure :: "string \<Rightarrow> pydict" where
  "failure msg = [(''success'', JBool False), (''message'', JStr msg)]"

definition json_post :: "string \<Rightarrow> (string \<times> string) list \<Rightarrow> json \<Rightarrow> http_request" where
  "json_post u hs payload =
     \<lparr>req_verb = ''POST'', req_url = u, req_headers = hs, req_params = [], req_json = payload,
      req_timeout = 180\<rparr>"

definition bearer_headers :: "string option \<Rightarrow> (string \<times> string) list" where
  "bearer_headers k = [(''Authorization'', ''Bearer '' @ key_text k), (''Content-Type'', ''application/json'')]"

definition bearer_accept_headers :: "string option \<Rightarrow> (string \<times> string) list" where
  "bearer_accept_headers k =
     [(''Authorization'', ''Bearer '' @ key_text k), (''Content-Type'', ''application/json''),
      (''Accept'', ''application/json'')]"



text \<open>An outcome that reports a failure and performed no request.\<close>

definition refused :: "pydict \<times> http_request list \<Rightarrow> bool" where
  "refused outcome = (map_of (fst outcome) ''success'' = Some (JBool False) \<and> snd outcome = [])"

text \<open>The constructors (\<open>__init__\<close> of each class), with every parameter given.\<close>

definition DalleService_init :: "string option \<Rightarrow> DalleService" where
  "DalleService_init key = \<lparr>api_key = key, base_url = ''https://api.openai.com/v1/images/generations''\<rparr>"

definition StableDiffusionService_init :: "string option \<Rightarrow> StableDiffusionService" where
  "StableDiffusionService_init key =
     \<lparr>api_key = key,
      base_url = ''https://api.stability.ai/v1/generation/stable-diffusion-xl-1024-v1-0/text-to-image''\<rparr>"

definition GeminiImageService_init ::
    "string option \<Rightarrow> string \<Rightarrow> string \<Rightarrow> string option \<Rightarrow> GeminiImageService" where
  "GeminiImageService_init key url model_name mode =
     (let requested_mode = py_lower (py_strip (if truthy_str mode then the mode else ''auto''));
          requested_mode = (if requested_mode \<notin> {''auto'', ''x-goog'', ''bearer''} then ''auto''
                            else requested_mode)
      in \<lparr>api_key = key, base_url = url, model = model_name,
          endpoint = url @ ''/v1beta/models/'' @ model_name @ '':generateContent'',
          auth_mode =
            (if requested_mode = ''auto''
             then (if truthy_str key \<and> startswith (the key) ''sk-'' then ''bearer'' else ''x-goog'')
             else requested_mode)\<rparr>)"

definition DoubaoImageService_init :: "string option \<Rightarrow> string \<Rightarrow> string \<Rightarrow> DoubaoImageService" where
  "DoubaoImageService_init key url model_name =
     \<lparr>api_key = key, base_url = rstrip_slash url, model = model_name,
      endpoint = rstrip_slash url @ ''/v1/images/generations''\<rparr>"

definition ChatService_init :: "string option \<Rightarrow> string \<Rightarrow> string \<Rightarrow> ChatService" where
  "ChatService_init key url model_name = \<lparr>api_key = key, base_url = rstrip_slash url, model = model_name\<rparr>"

definition MimoChatService_init ::
    "string option \<Rightarrow> string \<Rightarrow> string \<Rightarrow> real \<Rightarrow> real \<Rightarrow> int \<Rightarrow> MimoChatService" where
  "MimoChatService_init key url model_name temp nucleus max_tokens =
     \<lparr>api_key = key, base_url = rstrip_slash url, model = model_name,
      endpoint = rstrip_slash url @ ''/chat/completions'',
      temperature = temp, top_p = nucleus, max_completion_tokens = max_tokens\<rparr>"

definition VideoService_init :: "string option \<Rightarrow> string \<Rightarrow> string \<Rightarrow> VideoService" where
  "VideoService_init key url model_name =
     \<lparr>api_key = key, base_url = rstrip_slash url, model = model_name,
      create_endpoint = rstrip_slash url @ ''/v1/video/create'',
      query_endpoint = rstrip_slash url @ ''/v1/video/query''\<rparr>"

definition VideoAnalysisService_init :: "string option \<Rightarrow> string \<Rightarrow> string \<Rightarrow> VideoAnalysisService" where
  "VideoAnalysisService_init key url model_name =
     (let url = rstrip_slash url
      in \<lparr>api_key = key, base_url = url, model = model_name,
          endpoint = ''/v1beta/models/'' @ model_name @ '':generateContent'',
          host = (if startswith url ''https://'' then drop 8 url
                  else if startswith url ''http://'' then drop 7 url
                  else url)\<rparr>)"

section \<open>The Doubao image adapter: size and reference image helpers\<close>

text \<open>
  \<open>services/doubao_image.py\<close>, the private helpers (named without their leading
  underscore). \<open>parse_ratio\<close> is \<open>_parse_ratio\<close>: any exception of the \<open>try\<close> block
  gives \<open>(1, 1)\<close>.
\<close>

definition parse_ratio :: "string \<Rightarrow> int \<times> int" where
  "parse_ratio ratio =
     (let parts = py_split CHR '':'' ratio
      in case and_then (list_item parts 0) (\<lambda>p0.
              and_then (py_int p0) (\<lambda>w.
              and_then (list_item parts 1) (\<lambda>p1.
              and_then (py_int p1) (\<lambda>h. Inr (max 1 w, max 1 h))))) of
           Inl e \<Rightarrow> (1, 1)
         | Inr r \<Rightarrow> r)"

definition base_map :: "(string \<times> int) list" where
  "base_map = [(''1K'', 1024), (''2K'', 2048), (''4K'', 4096)]"

definition base_value_of :: "string \<Rightarrow> int" where
  "base_value_of image_size = (case map_of base_map (py_upper image_size) of Some b \<Rightarrow> b | None \<Rightarrow> 1024)"

text \<open>\<open>_build_size\<close> up to its last line: the width and height it formats.\<close>

definition build_size_wh :: "string \<Rightarrow> string \<Rightarrow> int \<times> int" where
  "build_size_wh aspect_ratio image_size =
     (let base_value = base_value_of image_size;
          (width_ratio, height_ratio) = parse_ratio aspect_ratio;
          (width, height) =
            (if width_ratio \<ge> height_ratio
             then (base_value, max 512 (round_div (base_value * height_ratio) (max width_ratio 1)))
             else (max 512 (round_div (base_value * width_ratio) (max height_ratio 1)), base_value))
      in (max 512 (min 4096 width), max 512 (min 4096 height)))"

definition build_size :: "string \<Rightarrow> string \<Rightarrow> string" where
  "build_size aspect_ratio image_size =
     (case build_size_wh aspect_ratio image_size of (width, height) \<Rightarrow> str_int width @ ''x'' @ str_int height)"

definition ensure_data_url :: "string \<Rightarrow> string" where
  "ensure_data_url v =
     (if v = [] then v
      else let trimmed = py_strip v
           in if startswith trimmed ''data:'' then trimmed
              else ''data:image/png;base64,'' @ trimmed)"

section \<open>Image generation adapters\<close>

subsection \<open>DALL-E (\<open>services/dalle.py\<close>)\<close>

text \<open>The body of the \<open>try\<close> block of \<open>generate_image\<close>, from the outcome of the request on
  (\<open>size_opt\<close> is the parameter \<open>size\<close>).\<close>

definition dalle_try :: "string \<Rightarrow> string \<Rightarrow> http_outcome \<Rightarrow> py_exc + pydict" where
  "dalle_try size_opt quality outcome =
     (case outcome of
        Raised e \<Rightarrow> Inl e
      | Response status_code body_text decoded \<Rightarrow>
          if status_code = 200 then
            and_then decoded (\<lambda>data.
            and_then (py_item data ''data'') (\<lambda>items.
            and_then (py_first items) (\<lambda>item.
            and_then (py_item item ''url'') (\<lambda>image_url.
            and_then (py_get item ''revised_prompt'' JNull) (\<lambda>revised_prompt.
              Inr [(''success'', JBool True),
                   (''image_url'', image_url),
                   (''metadata'', JDict [(''revised_prompt'', revised_prompt),
                                         (''size'', JStr size_opt),
                                         (''quality'', JStr quality)])])))))
          else Inr [(''success'', JBool False),
                    (''error'', JStr (''DALL-E API error: '' @ str_int status_code @ '' - '' @ body_text))])"

definition dalle_generate_image ::
    "DalleService \<Rightarrow> transport \<Rightarrow> string \<Rightarrow> string \<Rightarrow> string \<Rightarrow> int \<Rightarrow> pydict \<times> http_request list" where
  "dalle_generate_image self net prompt size_opt quality n =
     (if no_key (api_key self)
      then ([(''success'', JBool False), (''error'', JStr ''DALL-E API key not configured'')], [])
      else
        let request = json_post (base_url self) (bearer_headers (api_key self))
                        (JDict [(''model'', JStr ''dall-e-3''), (''prompt'', JStr prompt),
                                (''size'', JStr size_opt), (''quality'', JStr quality), (''n'', JInt n)])
        in (case dalle_try size_opt quality (net request) of
              Inr result \<Rightarrow> result
            | Inl e \<Rightarrow> [(''success'', JBool False),
                        (''error'', JStr (''DALL-E generation failed: '' @ str_exc e))],
            [request]))"

subsection \<open>Stable Diffusion (\<open>services/stable_diffusion.py\<close>)\<close>

definition sd_try :: "int \<Rightarrow> int \<Rightarrow> int \<Rightarrow> http_outcome \<Rightarrow> py_exc + pydict" where
  "sd_try width height steps outcome =
     (case outcome of
        Raised e \<Rightarrow> Inl e
      | Response status_code body_text decoded \<Rightarrow>
          if status_code = 200 then
            and_then decoded (\<lambda>data.
            and_then (py_item data ''artifacts'') (\<lambda>artifacts.
            and_then (py_first artifacts) (\<lambda>artifact.
            and_then (py_item artifact ''base64'') (\<lambda>image_data.
            and_then (py_get artifact ''seed'' JNull) (\<lambda>seed.
              Inr [(''success'', JBool True),
                   (''image_data'', image_data),
                   (''metadata'', JDict [(''width'', JInt width), (''height'', JInt height),
                                         (''steps'', JInt steps), (''seed'', seed)])])))))
          else Inr [(''success'', JBool False),
                    (''error'', JStr (''Stability AI error: '' @ str_int status_code @ '' - '' @ body_text))])"

definition sd_generate_image ::
    "StableDiffusionService \<Rightarrow> transport \<Rightarrow> string \<Rightarrow> int \<Rightarrow> int \<Rightarrow> int \<Rightarrow> pydict \<times> http_request list" where
  "sd_generate_image self net prompt width height steps =
     (if no_key (api_key self)
      then ([(''success'', JBool False), (''error'', JStr ''Stability AI API key not configured'')], [])
      else
        let request = json_post (base_url self) (bearer_accept_headers (api_key self))
                        (JDict [(''text_prompts'', JList [JDict [(''text'', JStr prompt), (''weight'', JInt 1)]]),
                                (''cfg_scale'', JInt 7), (''height'', JInt height), (''width'', JInt width),
                                (''steps'', JInt steps), (''samples'', JInt 1)])
        in (case sd_try width height steps (net request) of
              Inr result \<Rightarrow> result
            | Inl e \<Rightarrow> [(''success'', JBool False),
                        (''error'', JStr (''Stable Diffusion generation failed: '' @ str_exc e))],
            [request]))"

subsection \<open>Gemini (\<open>services/gemini_image.py\<close>)\<close>

text \<open>\<open>s.split(sep, 1)\<close> unpacked into two names: \<open>None\<close> stands for the \<open>ValueError\<close> of
  unpacking a single field.\<close>

fun split_once :: "char \<Rightarrow> string \<Rightarrow> (string \<times> string) option" where
  "split_once sep [] = None"
| "split_once sep (c # cs) =
     (if c = sep then Some ([], cs)
      else (case split_once sep cs of None \<Rightarrow> None | Some (a, b) \<Rightarrow> Some (c # a, b)))"

definition split_reference_image :: "string \<Rightarrow> py_exc + string \<times> string" where
  "split_reference_image reference_image =
     (let default_mime = ''image/jpeg'' in
      if reference_image = [] then Inr (default_mime, '''')
      else
        let ref = py_strip reference_image in
        if startswith ref ''data:'' then
          (case split_once CHR '','' ref of
             None \<Rightarrow> Inr (default_mime, ref)
           | Some (header, base64_data) \<Rightarrow>
               and_then (list_item (py_split CHR '';'' header) 0) (\<lambda>h0.
               and_then (list_item (py_split CHR '':'' h0) 1) (\<lambda>m.
                 Inr (if m \<noteq> [] then m else default_mime, base64_data))))
        else Inr (default_mime, ref))"

definition prepare_reference_part :: "string \<Rightarrow> py_exc + json" where
  "prepare_reference_part reference_image =
     and_then (split_reference_image reference_image) (\<lambda>(mime_type, data).
       Inr (JDict [(''inline_data'', JDict [(''mime_type'', JStr mime_type), (''data'', JStr data)])]))"

text \<open>One round of the loop over the parts of the first candidate; the state is
  \<open>(image_data, text_response, image_mime)\<close>.\<close>

definition gemini_part :: "json \<Rightarrow> json \<times> json \<times> json \<Rightarrow> py_exc + json \<times> json \<times> json" where
  "gemini_part part acc =
     (case acc of (image_data, text_response, image_mime) \<Rightarrow>
        and_then (py_in ''inlineData'' part) (\<lambda>has1.
        and_then (if has1 then Inr True else py_in ''inline_data'' part) (\<lambda>has_inline.
          if has_inline then
            and_then (py_get part ''inlineData'' JNull) (\<lambda>i1.
            and_then (if truthy i1 then Inr i1 else py_get part ''inline_data'' JNull) (\<lambda>inline.
              if truthy inline then
                and_then (py_get inline ''data'' JNull) (\<lambda>d.
                and_then (py_get inline ''mimeType'' JNull) (\<lambda>m1.
                and_then (if truthy m1 then Inr m1 else py_get inline ''mime_type'' JNull) (\<lambda>m2.
                  Inr (d, text_response, py_or m2 image_mime))))
              else Inr acc))
          else
            and_then (py_in ''text'' part) (\<lambda>has_text.
              if has_text
              then and_then (py_item part ''text'') (\<lambda>t. Inr (image_data, t, image_mime))
              else Inr acc))))"

fun gemini_parts :: "json list \<Rightarrow> json \<times> json \<times> json \<Rightarrow> py_exc + json \<times> json \<times> json" where
  "gemini_parts [] acc = Inr acc"
| "gemini_parts (part # rest) acc = and_then (gemini_part part acc) (gemini_parts rest)"

text \<open>The inner \<open>try\<close> block, which reads the decoded response.\<close>

definition gemini_parse :: "string \<Rightarrow> string \<Rightarrow> string \<Rightarrow> json \<Rightarrow> py_exc + pydict" where
  "gemini_parse model_name aspect_ratio image_size data =
     and_then (py_get data ''candidates'' (JList [])) (\<lambda>candidates.
       if \<not> truthy candidates then Inr (failure ''No candidates in response'')
       else
         and_then (py_first candidates) (\<lambda>candidate.
         and_then (py_get candidate ''content'' (JDict [])) (\<lambda>content.
         and_then (py_get content ''parts'' (JList [])) (\<lambda>parts.
         and_then (py_iter parts) (\<lambda>part_list.
         and_then (gemini_parts part_list (JNull, JNull, JNull)) (\<lambda>(image_data, text_response, image_mime).
           if truthy image_data then
             Inr [(''success'', JBool True),
                  (''image_data'', image_data),
                  (''text'', text_response),
                  (''message'', JStr (''<U+56FE><U+7247><U+751F><U+6210><U+6210><U+529F> ('' @ aspect_ratio @ '', '' @ image_size @ '')'')),
                  (''metadata'', JDict [(''aspect_ratio'', JStr aspect_ratio),
                                        (''image_size'', JStr image_size),
                                        (''model'', JStr model_name),
                                        (''mime_type'', py_or image_mime (JStr ''image/png''))])]
           else
             Inr [(''success'', JBool False),
                  (''message'', JStr ''No image data in response''),
                  (''raw_response'', data)]))))))"

definition gemini_response :: "string \<Rightarrow> string \<Rightarrow> string \<Rightarrow> http_outcome \<Rightarrow> py_exc + pydict" where
  "gemini_response model_name aspect_ratio image_size outcome =
     (case outcome of
        Raised e \<Rightarrow> Inl e
      | Response status_code body_text decoded \<Rightarrow>
          if status_code = 200 then
            and_then decoded (\<lambda>data.
              case gemini_parse model_name aspect_ratio image_size data of
                Inl (KeyError m) \<Rightarrow>
                  Inr [(''success'', JBool False),
                       (''message'', JStr (''Failed to parse response: '' @ m)),
                       (''raw_response'', data)]
              | Inl (IndexError m) \<Rightarrow>
                  Inr [(''success'', JBool False),
                       (''message'', JStr (''Failed to parse response: '' @ m)),
                       (''raw_response'', data)]
              | Inl e \<Rightarrow> Inl e
              | Inr result \<Rightarrow> Inr result)
          else Inr (failure (''Gemini API error: '' @ str_int status_code @ '' - '' @ body_text)))"

text \<open>The request, built inside the \<open>try\<close> block before anything is sent.\<close>

definition gemini_request ::
    "GeminiImageService \<Rightarrow> string \<Rightarrow> string \<Rightarrow> string \<Rightarrow> string option \<Rightarrow> py_exc + http_request" where
  "gemini_request self prompt aspect_ratio image_size reference_image =
     and_then (if truthy_str reference_image
               then and_then (prepare_reference_part (the reference_image)) (\<lambda>p. Inr [JDict [(''text'', JStr prompt)], p])
               else Inr [JDict [(''text'', JStr prompt)]]) (\<lambda>parts.
       let request_body = [(''contents'', JList [JDict [(''parts'', JList parts)]])];
           request_body =
             (if is_substring ''gemini-3-pro'' (model self)
              then AList.update ''generationConfig''
                     (JDict [(''responseModalities'', JList [JStr ''TEXT'', JStr ''IMAGE'']),
                             (''imageConfig'', JDict [(''aspectRatio'', JStr aspect_ratio),
                                                      (''imageSize'', JStr image_size)])])
                     request_body
              else request_body);
           headers = [(''Content-Type'', ''application/json'')];
           headers =
             (if auth_mode self = ''bearer''
              then AList.update ''Authorization'' (''Bearer '' @ key_text (api_key self)) headers
              else AList.update ''x-goog-api-key'' (key_text (api_key self)) headers)
       in Inr (json_post (endpoint self) headers (JDict request_body)))"

definition gemini_generate_image ::
    "GeminiImageService \<Rightarrow> transport \<Rightarrow> string \<Rightarrow> string \<Rightarrow> string \<Rightarrow> string option
       \<Rightarrow> pydict \<times> http_request list" where
  "gemini_generate_image self net prompt aspect_ratio image_size reference_image =
     (if no_key (api_key self) then (failure ''Gemini API key not configured'', [])
      else
        (case gemini_request self prompt aspect_ratio image_size reference_image of
           Inl e \<Rightarrow> (failure (''Gemini image generation failed: '' @ str_exc e), [])
         | Inr request \<Rightarrow>
             (case gemini_response (model self) aspect_ratio image_size (net request) of
                Inr result \<Rightarrow> result
              | Inl (HttpxTimeout m) \<Rightarrow> failure ''Request timeout. Try using a lower resolution (1K or 2K)''
              | Inl e \<Rightarrow> failure (''Gemini image generation failed: '' @ str_exc e),
              [request])))"

subsection \<open>Doubao (\<open>services/doubao_image.py\<close>)\<close>

text \<open>A reference image is one string or a list of strings.\<close>

datatype reference = RefStr string | RefList "string list"

definition reference_json :: "reference \<Rightarrow> json" where
  "reference_json r = (case r of RefStr s \<Rightarrow> JStr s | RefList xs \<Rightarrow> JList (map JStr xs))"

definition format_image_input :: "reference \<Rightarrow> reference" where
  "format_image_input r =
     (case r of
        RefList xs \<Rightarrow> RefList (map ensure_data_url (filter (\<lambda>item. item \<noteq> []) xs))
      | RefStr s \<Rightarrow> RefStr (ensure_data_url s))"

definition doubao_payload ::
    "DoubaoImageService \<Rightarrow> string \<Rightarrow> string \<Rightarrow> string \<Rightarrow> reference option \<Rightarrow> string \<Rightarrow> string \<Rightarrow> int
       \<Rightarrow> bool \<Rightarrow> pydict \<Rightarrow> pydict" where
  "doubao_payload self prompt aspect_ratio image_size reference_image response_format sequential_mode
       max_images watermark kwargs =
     (let payload = [(''model'', JStr (model self)),
                     (''prompt'', JStr prompt),
                     (''response_format'', JStr response_format),
                     (''sequential_image_generation'', JStr sequential_mode),
                     (''watermark'', JBool watermark)];
          size_override = (case map_of kwargs ''size'' of Some v \<Rightarrow> v | None \<Rightarrow> JNull);
          payload = AList.update ''size'' (py_or size_override (JStr (build_size aspect_ratio image_size))) payload;
          payload =
            (if sequential_mode = ''auto''
             then AList.update ''sequential_image_generation_options''
                    (JDict [(''max_images'', JInt (max 1 (min 15 max_images)))]) payload
             else payload)
      in case reference_image of
           None \<Rightarrow> payload
         | Some r \<Rightarrow>
             if truthy (reference_json r)
             then (let formatted_image = format_image_input r
                   in if truthy (reference_json formatted_image)
                      then AList.update ''image'' (reference_json formatted_image) payload
                      else payload)
             else payload)"

text \<open>\<open>"".join(s.split())\<close>: the string without its whitespace.\<close>

definition remove_whitespace :: "string \<Rightarrow> string" where
  "remove_whitespace s = filter (\<lambda>c. \<not> is_space c) s"

definition doubao_try ::
    "DoubaoImageService \<Rightarrow> string \<Rightarrow> string \<Rightarrow> http_outcome \<Rightarrow> py_exc + pydict" where
  "doubao_try self aspect_ratio image_size outcome =
     (case outcome of
        Raised e \<Rightarrow> Inl e
      | Response status_code body_text decoded \<Rightarrow>
          if status_code \<noteq> 200
          then Inr (failure (''Doubao API error: '' @ str_int status_code @ '' - '' @ body_text))
          else
            and_then decoded (\<lambda>data.
            and_then (py_get data ''data'' (JList [])) (\<lambda>images.
              if \<not> truthy images
              then Inr [(''success'', JBool False),
                        (''message'', JStr ''Doubao API returned no images''),
                        (''raw_response'', data)]
              else
                and_then (py_first images) (\<lambda>first_image.
                and_then (py_get first_image ''b64_json'' JNull) (\<lambda>b64.
                and_then (py_get first_image ''url'' JNull) (\<lambda>image_url.
                and_then (py_get first_image ''mime_type'' JNull) (\<lambda>mime.
                  let image_data = (case b64 of JStr s \<Rightarrow> if s \<noteq> [] then JStr (remove_whitespace s) else b64
                                    | _ \<Rightarrow> b64);
                      mime_type = py_or mime (JStr ''image/jpeg'');
                      metadata = JDict [(''aspect_ratio'', JStr aspect_ratio),
                                        (''image_size'', JStr image_size),
                                        (''model'', JStr (model self)),
                                        (''service'', JStr ''doubao-image''),
                                        (''mime_type'', mime_type)]
                  in if truthy image_data then
                       Inr [(''success'', JBool True),
                            (''image_data'', image_data),
                            (''message'', JStr ''<U+8C46><U+5305><U+56FE><U+7247><U+751F><U+6210><U+6210><U+529F>''),
                            (''metadata'', metadata)]
                     else if truthy image_url then
                       Inr [(''success'', JBool True),
                            (''image_url'', image_url),
                            (''message'', JStr ''<U+8C46><U+5305><U+56FE><U+7247><U+751F><U+6210><U+6210><U+529F><U+FF08>URL<U+FF09>''),
                            (''metadata'', metadata)]
                     else
                       Inr [(''success'', JBool False),
                            (''message'', JStr ''Unknown response format''),
                            (''raw_response'', data)])))))))"

definition doubao_generate_image ::
    "DoubaoImageService \<Rightarrow> transport \<Rightarrow> string \<Rightarrow> string \<Rightarrow> string \<Rightarrow> reference option \<Rightarrow> string
       \<Rightarrow> string \<Rightarrow> int \<Rightarrow> bool \<Rightarrow> pydict \<Rightarrow> pydict \<times> http_request list" where
  "doubao_generate_image self net prompt aspect_ratio image_size reference_image response_format
       sequential_mode max_images watermark kwargs =
     (if no_key (api_key self) then (failure ''Doubao API key not configured'', [])
      else
        let payload = doubao_payload self prompt aspect_ratio image_size reference_image response_format
                        sequential_mode max_images watermark kwargs;
            request = json_post (endpoint self) (bearer_headers (api_key self)) (JDict payload)
        in (case doubao_try self aspect_ratio image_size (net request) of
              Inr result \<Rightarrow> result
            | Inl (HttpxTimeout m) \<Rightarrow> failure ''Doubao request timed out. Try a smaller size.''
            | Inl e \<Rightarrow> failure (''Doubao image generation failed: '' @ str_exc e),
            [request]))"

section \<open>Chat adapters\<close>

subsection \<open>The OpenAI-compatible chat service (\<open>services/chat_service.py\<close>)\<close>

text \<open>The messages are forwarded as they come: a list of values.\<close>

definition chat_try :: "http_outcome \<Rightarrow> py_exc + pydict" where
  "chat_try outcome =
     (case outcome of
        Raised e \<Rightarrow> Inl e
      | Response status_code body_text decoded \<Rightarrow>
          if status_code = 200 then
            and_then decoded (\<lambda>data.
            and_then (py_item data ''choices'') (\<lambda>choices.
            and_then (py_first choices) (\<lambda>choice.
            and_then (py_item choice ''message'') (\<lambda>msg.
            and_then (py_item msg ''content'') (\<lambda>content.
              Inr [(''success'', JBool True), (''message'', content), (''data'', data)])))))
          else Inr (failure (''API Error: '' @ str_int status_code @ '' - '' @ body_text)))"

definition chat_completion ::
    "ChatService \<Rightarrow> transport \<Rightarrow> json list \<Rightarrow> string option \<Rightarrow> pydict \<times> http_request list" where
  "chat_completion self net messages model_override =
     (if no_key (api_key self) then (failure ''API key not configured'', [])
      else
        let target_model = (if truthy_str model_override then the model_override else model self);
            request = json_post (base_url self @ ''/chat/completions'')
                        [(''Content-Type'', ''application/json''),
                         (''Authorization'', ''Bearer '' @ key_text (api_key self))]
                        (JDict [(''model'', JStr target_model), (''messages'', JList messages)])
        in (case chat_try (net request) of
              Inr result \<Rightarrow> result
            | Inl e \<Rightarrow> failure (''Request failed: '' @ str_exc e),
            [request]))"

subsection \<open>MiMO (\<open>services/mimo_chat.py\<close>)\<close>

definition mimo_try :: "http_outcome \<Rightarrow> py_exc + pydict" where
  "mimo_try outcome =
     (case outcome of
        Raised e \<Rightarrow> Inl e
      | Response status_code body_text decoded \<Rightarrow>
          if status_code = 200 then
            and_then decoded (\<lambda>data.
            and_then (py_get data ''choices'' (JList [JDict []])) (\<lambda>choices.
            and_then (py_first choices) (\<lambda>choice.
            and_then (py_get choice ''message'' (JDict [])) (\<lambda>msg.
            and_then (py_get msg ''content'' (JStr '''')) (\<lambda>content.
              Inr [(''success'', JBool True), (''message'', content), (''data'', data)])))))
          else Inr (failure (''MiMO API error: '' @ str_int status_code @ '' - '' @ body_text)))"

definition mimo_chat_completion ::
    "MimoChatService \<Rightarrow> transport \<Rightarrow> json list \<Rightarrow> string option \<Rightarrow> pydict \<times> http_request list" where
  "mimo_chat_completion self net messages model_override =
     (if no_key (api_key self) then (failure ''MiMO API key not configured'', [])
      else
        let payload = [(''model'', JStr (if truthy_str model_override then the model_override else model self)),
                       (''messages'', JList messages),
                       (''max_completion_tokens'', JInt (max_completion_tokens self)),
                       (''temperature'', JFloat (temperature self)),
                       (''top_p'', JFloat (top_p self)),
                       (''stream'', JBool False),
                       (''frequency_penalty'', JInt 0),
                       (''presence_penalty'', JInt 0),
                       (''extra_body'', JDict [(''thinking'', JDict [(''type'', JStr ''disabled'')])])];
            request = json_post (endpoint self)
                        [(''Content-Type'', ''application/json''),
                         (''Authorization'', ''Bearer '' @ key_text (api_key self))]
                        (JDict payload)
        in (case mimo_try (net request) of
              Inr result \<Rightarrow> result
            | Inl (HttpxTimeout m) \<Rightarrow> failure ''MiMO request timed out''
            | Inl e \<Rightarrow> failure (''MiMO request failed: '' @ str_exc e),
            [request]))"

section \<open>Video generation adapters\<close>

text \<open>
  \<open>services/sora_video.py\<close> and \<open>services/veo_video.py\<close>. The routers pass the fields
  of their request models on, which are optional, so an option of \<open>create_video\<close> may be
  \<open>None\<close>.
\<close>

subsection \<open>Sora\<close>

text \<open>The parameter validation of \<open>create_video\<close>: a value outside the accepted ones is
  replaced.\<close>

definition sora_valid_orientation :: "string option \<Rightarrow> string" where
  "sora_valid_orientation orientation =
     (if orientation \<notin> {Some ''portrait'', Some ''landscape''} then ''landscape'' else the orientation)"

definition sora_valid_duration :: "int option \<Rightarrow> int" where
  "sora_valid_duration duration = (if duration \<notin> {Some 15, Some 25} then 15 else the duration)"

definition sora_payload ::
    "SoraVideoService \<Rightarrow> string \<Rightarrow> string option \<Rightarrow> int option \<Rightarrow> bool \<Rightarrow> bool \<Rightarrow> string list option
       \<Rightarrow> pydict" where
  "sora_payload self prompt orientation duration watermark private_flag images =
     [(''model'', JStr (model self)),
      (''prompt'', JStr prompt),
      (''orientation'', JStr (sora_valid_orientation orientation)),
      (''size'', JStr ''large''),
      (''duration'', JInt (sora_valid_duration duration)),
      (''watermark'', JBool watermark),
      (''private'', JBool private_flag),
      (''images'', JList (map JStr (case images of None \<Rightarrow> [] | Some xs \<Rightarrow> xs)))]"

definition sora_create_try ::
    "SoraVideoService \<Rightarrow> string \<Rightarrow> string \<Rightarrow> int \<Rightarrow> http_outcome \<Rightarrow> py_exc + pydict" where
  "sora_create_try self prompt orientation duration outcome =
     (case outcome of
        Raised e \<Rightarrow> Inl e
      | Response status_code body_text decoded \<Rightarrow>
          if status_code \<noteq> 200
          then Inr (failure (''Sora API error: '' @ str_int status_code @ '' - '' @ body_text))
          else
            and_then decoded (\<lambda>data.
            and_then (py_get data ''id'' JNull) (\<lambda>task_id.
            and_then (py_get data ''status'' (JStr ''pending'')) (\<lambda>status.
              if \<not> truthy task_id
              then Inr [(''success'', JBool False),
                        (''message'', JStr ''No task ID returned from API''),
                        (''raw_response'', data)]
              else Inr [(''success'', JBool True),
                        (''task_id'', task_id),
                        (''status'', status),
                        (''message'', JStr ''<U+89C6><U+9891><U+751F><U+6210><U+4EFB><U+52A1><U+5DF2><U+521B><U+5EFA>''),
                        (''metadata'', JDict [(''model'', JStr (model self)),
                                              (''orientation'', JStr orientation),
                                              (''duration'', JInt duration),
                                              (''prompt'', JStr prompt)])]))))"

definition sora_create_video ::
    "SoraVideoService \<Rightarrow> transport \<Rightarrow> string \<Rightarrow> string option \<Rightarrow> int option \<Rightarrow> bool \<Rightarrow> bool
       \<Rightarrow> string list option \<Rightarrow> pydict \<times> http_request list" where
  "sora_create_video self net prompt orientation duration watermark private_flag images =
     (if no_key (api_key self) then (failure ''Sora API key not configured'', [])
      else
        let request = json_post (create_endpoint self) (bearer_accept_headers (api_key self))
                        (JDict (sora_payload self prompt orientation duration watermark private_flag images))
        in (case sora_create_try self prompt (sora_valid_orientation orientation)
                   (sora_valid_duration duration) (net request) of
              Inr result \<Rightarrow> result
            | Inl (HttpxTimeout m) \<Rightarrow> failure ''Sora request timed out. Please try again.''
            | Inl e \<Rightarrow> failure (''Sora video creation failed: '' @ str_exc e),
            [request]))"

definition query_request :: "VideoService \<Rightarrow> string \<Rightarrow> http_request" where
  "query_request self task_id =
     \<lparr>req_verb = ''GET'', req_url = query_endpoint self,
      req_headers = bearer_accept_headers (api_key self),
      req_params = [(''id'', task_id)], req_json = JNull, req_timeout = 180\<rparr>"

text \<open>The result \<open>query_video\<close> builds from the three fields it reads off the decoded
  response.\<close>

definition sora_query_result :: "string \<Rightarrow> json \<Rightarrow> json \<Rightarrow> json \<Rightarrow> pydict" where
  "sora_query_result task_id status video_url enhanced_prompt =
     (let result = [(''success'', JBool True),
                    (''task_id'', JStr task_id),
                    (''status'', status),
                    (''enhanced_prompt'', enhanced_prompt)]
      in if status = JStr ''completed'' \<and> truthy video_url then
           AList.update ''message'' (JStr ''<U+89C6><U+9891><U+751F><U+6210><U+5B8C><U+6210>'') (AList.update ''video_url'' video_url result)
         else if status = JStr ''failed'' then
           AList.update ''message'' (JStr ''<U+89C6><U+9891><U+751F><U+6210><U+5931><U+8D25>'')
             (AList.update ''success'' (JBool False) result)
         else if status = JStr ''pending'' then
           AList.update ''message'' (JStr ''<U+89C6><U+9891><U+6B63><U+5728><U+6392><U+961F><U+4E2D>...'') result
         else if status = JStr ''processing'' then
           AList.update ''message'' (JStr ''<U+89C6><U+9891><U+6B63><U+5728><U+751F><U+6210><U+4E2D>...'') result
         else
           AList.update ''message'' (JStr (''<U+72B6><U+6001>: '' @ py_str status)) result)"

definition sora_query_try :: "string \<Rightarrow> http_outcome \<Rightarrow> py_exc + pydict" where
  "sora_query_try task_id outcome =
     (case outcome of
        Raised e \<Rightarrow> Inl e
      | Response status_code body_text decoded \<Rightarrow>
          if status_code \<noteq> 200
          then Inr (failure (''Sora API error: '' @ str_int status_code @ '' - '' @ body_text))
          else
            and_then decoded (\<lambda>data.
            and_then (py_get data ''status'' (JStr ''unknown'')) (\<lambda>status.
            and_then (py_get data ''video_url'' JNull) (\<lambda>video_url.
            and_then (py_get data ''enhanced_prompt'' JNull) (\<lambda>enhanced_prompt.
              Inr (sora_query_result task_id status video_url enhanced_prompt))))))"

definition sora_query_video ::
    "SoraVideoService \<Rightarrow> transport \<Rightarrow> string \<Rightarrow> pydict \<times> http_request list" where
  "sora_query_video self net task_id =
     (if no_key (api_key self) then (failure ''Sora API key not configured'', [])
      else
        let request = query_request self task_id
        in (case sora_query_try task_id (net request) of
              Inr result \<Rightarrow> result
            | Inl (HttpxTimeout m) \<Rightarrow> failure ''Query request timed out. Please try again.''
            | Inl e \<Rightarrow> failure (''Failed to query video status: '' @ str_exc e),
            [request]))"


subsection \<open>VEO\<close>

definition veo_valid_aspect_ratio :: "string option \<Rightarrow> string" where
  "veo_valid_aspect_ratio aspect_ratio =
     (if aspect_ratio \<notin> {Some ''16:9'', Some ''9:16''} then ''16:9'' else the aspect_ratio)"

definition veo_use_model :: "VeoVideoService \<Rightarrow> string option \<Rightarrow> string" where
  "veo_use_model self model_arg = (if truthy_str model_arg then the model_arg else model self)"

definition veo_payload ::
    "VeoVideoService \<Rightarrow> string \<Rightarrow> string option \<Rightarrow> string option \<Rightarrow> bool option \<Rightarrow> bool option
       \<Rightarrow> string list option \<Rightarrow> pydict" where
  "veo_payload self prompt model_arg aspect_ratio enhance_prompt enable_upsample images =
     (let payload = [(''model'', JStr (veo_use_model self model_arg)),
                     (''prompt'', JStr prompt),
                     (''enhance_prompt'', opt_bool enhance_prompt),
                     (''enable_upsample'', opt_bool enable_upsample),
                     (''aspect_ratio'', JStr (veo_valid_aspect_ratio aspect_ratio))]
      in case images of
           None \<Rightarrow> payload
         | Some xs \<Rightarrow> if xs \<noteq> [] then AList.update ''images'' (JList (map JStr xs)) payload else payload)"

definition veo_create_try ::
    "string \<Rightarrow> string \<Rightarrow> string \<Rightarrow> bool option \<Rightarrow> http_outcome \<Rightarrow> py_exc + pydict" where
  "veo_create_try prompt use_model aspect_ratio enhance_prompt outcome =
     (case outcome of
        Raised e \<Rightarrow> Inl e
      | Response status_code body_text decoded \<Rightarrow>
          if status_code \<noteq> 200
          then Inr (failure (''VEO API error: '' @ str_int status_code @ '' - '' @ body_text))
          else
            and_then decoded (\<lambda>data.
            and_then (py_get data ''id'' JNull) (\<lambda>task_id.
            and_then (py_get data ''status'' (JStr ''pending'')) (\<lambda>status.
              if \<not> truthy task_id
              then Inr [(''success'', JBool False),
                        (''message'', JStr ''No task ID returned from API''),
                        (''raw_response'', data)]
              else Inr [(''success'', JBool True),
                        (''task_id'', task_id),
                        (''status'', status),
                        (''message'', JStr ''VEO <U+89C6><U+9891><U+751F><U+6210><U+4EFB><U+52A1><U+5DF2><U+521B><U+5EFA>''),
                        (''metadata'', JDict [(''model'', JStr use_model),
                                              (''aspect_ratio'', JStr aspect_ratio),
                                              (''enhance_prompt'', opt_bool enhance_prompt),
                                              (''prompt'', JStr prompt)])]))))"

definition veo_create_video ::
    "VeoVideoService \<Rightarrow> transport \<Rightarrow> string \<Rightarrow> string option \<Rightarrow> string option \<Rightarrow> bool option
       \<Rightarrow> bool option \<Rightarrow> string list option \<Rightarrow> pydict \<times> http_request list" where
  "veo_create_video self net prompt model_arg aspect_ratio enhance_prompt enable_upsample images =
     (if no_key (api_key self) then (failure ''VEO API key not configured'', [])
      else
        let request = json_post (create_endpoint self) (bearer_accept_headers (api_key self))
                        (JDict (veo_payload self prompt model_arg aspect_ratio enhance_prompt
                                  enable_upsample images))
        in (case veo_create_try prompt (veo_use_model self model_arg)
                   (veo_valid_aspect_ratio aspect_ratio) enhance_prompt (net request) of
              Inr result \<Rightarrow> result
            | Inl (HttpxTimeout m) \<Rightarrow> failure ''VEO request timed out. Please try again.''
            | Inl e \<Rightarrow> failure (''VEO video creation failed: '' @ str_exc e),
            [request]))"

text \<open>The result \<open>query_video\<close> builds from the three fields it reads off the decoded
  response.\<close>

definition veo_query_result :: "string \<Rightarrow> json \<Rightarrow> json \<Rightarrow> json \<Rightarrow> pydict" where
  "veo_query_result task_id status video_url enhanced_prompt =
     (let result = [(''success'', JBool True),
                    (''task_id'', JStr task_id),
                    (''status'', status),
                    (''enhanced_prompt'', enhanced_prompt)]
      in if status = JStr ''completed'' \<and> truthy video_url then
           AList.update ''message'' (JStr ''VEO <U+89C6><U+9891><U+751F><U+6210><U+5B8C><U+6210>'') (AList.update ''video_url'' video_url result)
         else if status = JStr ''failed'' then
           AList.update ''message'' (JStr ''<U+89C6><U+9891><U+751F><U+6210><U+5931><U+8D25>'')
             (AList.update ''success'' (JBool False) result)
         else if status = JStr ''pending'' then
           AList.update ''message'' (JStr ''<U+89C6><U+9891><U+6B63><U+5728><U+6392><U+961F><U+4E2D>...'') result
         else if status = JStr ''processing'' then
           AList.update ''message'' (JStr ''<U+89C6><U+9891><U+6B63><U+5728><U+751F><U+6210><U+4E2D>...'') result
         else
           AList.update ''message'' (JStr (''<U+72B6><U+6001>: '' @ py_str status)) result)"

definition veo_query_try :: "string \<Rightarrow> http_outcome \<Rightarrow> py_exc + pydict" where
  "veo_query_try task_id outcome =
     (case outcome of
        Raised e \<Rightarrow> Inl e
      | Response status_code body_text decoded \<Rightarrow>
          if status_code \<noteq> 200
          then Inr (failure (''VEO API error: '' @ str_int status_code @ '' - '' @ body_text))
          else
            and_then decoded (\<lambda>data.
            and_then (py_get data ''status'' (JStr ''unknown'')) (\<lambda>status.
            and_then (py_get data ''video_url'' JNull) (\<lambda>video_url.
            and_then (py_get data ''enhanced_prompt'' JNull) (\<lambda>enhanced_prompt.
              Inr (veo_query_result task_id status video_url enhanced_prompt))))))"

definition veo_query_video ::
    "VeoVideoService \<Rightarrow> transport \<Rightarrow> string \<Rightarrow> pydict \<times> http_request list" where
  "veo_query_video self net task_id =
     (if no_key (api_key self) then (failure ''VEO API key not configured'', [])
      else
        let request = query_request self task_id
        in (case veo_query_try task_id (net request) of
              Inr result \<Rightarrow> result
            | Inl (HttpxTimeout m) \<Rightarrow> failure ''Query request timed out. Please try again.''
            | Inl e \<Rightarrow> failure (''Failed to query video status: '' @ str_exc e),
            [request]))"

section \<open>The video analysis adapter (\<open>services/video_analysis.py\<close>)\<close>

text \<open>
  The adapter reads the file system and talks to the provider through \<open>http.client\<close>.
  Both are parameters: whether a path exists, the size of the file, its content in
  base64 (or the exception reading it raises), what constructing the connection does for
  a host, and the exchange itself.
\<close>

record analysis_env =
  path_exists :: "string \<Rightarrow> bool"
  stat_size :: "string \<Rightarrow> py_exc + nat"
  read_base64 :: "string \<Rightarrow> py_exc + string"
  open_connection :: "string \<Rightarrow> py_exc option"
  exchange :: transport

text \<open>
  A number of bytes in megabytes with \<open>k\<close> decimals (\<open>f"{n / (1024*1024):.kf}"\<close>). The
  quotient by a power of two is exact in binary64 for every file size, so the digits are
  those of the exact quotient, rounded half to even.
\<close>

definition pad_zeros :: "nat \<Rightarrow> string \<Rightarrow> string" where
  "pad_zeros k s = replicate (k - length s) CHR ''0'' @ s"

definition fmt_megabytes :: "nat \<Rightarrow> nat \<Rightarrow> string" where
  "fmt_megabytes k n =
     (let scaled = nat (round_div (int n * 10 ^ k) (1024 * 1024));
          whole = scaled div 10 ^ k;
          frac = scaled mod 10 ^ k
      in str_nat whole @ (if k = 0 then [] else ''.'' @ pad_zeros k (str_nat frac)))"

definition encode_video_to_base64 :: "analysis_env \<Rightarrow> string \<Rightarrow> py_exc + string" where
  "encode_video_to_base64 env video_path =
     (case read_base64 env video_path of
        Inr video_data \<Rightarrow> Inr video_data
      | Inl e \<Rightarrow> Inl (OtherException (''<U+89C6><U+9891><U+6587><U+4EF6><U+8BFB><U+53D6><U+5931><U+8D25>: '' @ str_exc e)))"

definition analysis_payload :: "string \<Rightarrow> string \<Rightarrow> json" where
  "analysis_payload video_base64 prompt =
     JDict [(''contents'',
             JList [JDict [(''role'', JStr ''user''),
                           (''parts'', JList [JDict [(''inline_data'',
                                                      JDict [(''mime_type'', JStr ''video/mp4''),
                                                             (''data'', JStr video_base64)])],
                                              JDict [(''text'', JStr prompt)]])]])]"

definition analysis_request :: "VideoAnalysisService \<Rightarrow> string \<Rightarrow> json \<Rightarrow> http_request" where
  "analysis_request self key payload =
     \<lparr>req_verb = ''POST'',
      req_url = ''https://'' @ host self @ endpoint self @ ''?key='' @ key,
      req_headers = [(''Authorization'', ''Bearer '' @ key), (''Content-Type'', ''application/json'')],
      req_params = [], req_json = payload, req_timeout = 180\<rparr>"

text \<open>The loop that concatenates the text parts of the first candidate.\<close>

fun analysis_text :: "json list \<Rightarrow> string \<Rightarrow> py_exc + string" where
  "analysis_text [] text_response = Inr text_response"
| "analysis_text (part # rest) text_response =
     and_then (py_in ''text'' part) (\<lambda>has_text.
       if has_text then
         and_then (py_item part ''text'') (\<lambda>t.
           case t of
             JStr s \<Rightarrow> analysis_text rest (text_response @ s)
           | _ \<Rightarrow> Inl (TypeError (''can only concatenate str (not '' @ quoted (type_name t) @ '') to str'')))
       else analysis_text rest text_response)"

text \<open>What follows the exchange: \<open>on_timeout\<close> is the message of the \<open>TimeoutError\<close>
  handler and \<open>metadata\<close> the metadata of a success, which differ between the two
  operations.\<close>

definition analysis_result :: "string \<Rightarrow> json \<Rightarrow> http_outcome \<Rightarrow> py_exc + pydict" where
  "analysis_result on_timeout metadata outcome =
     (case outcome of
        Raised (TimeoutError m) \<Rightarrow> Inr (failure on_timeout)
      | Raised e \<Rightarrow> Inr (failure (''<U+7F51><U+7EDC><U+8BF7><U+6C42><U+5931><U+8D25>: '' @ str_exc e))
      | Response status body_text (Inl (TimeoutError m)) \<Rightarrow> Inr (failure on_timeout)
      | Response status body_text (Inl e) \<Rightarrow>
          Inr (failure (''<U+7F51><U+7EDC><U+8BF7><U+6C42><U+5931><U+8D25>: '' @ str_exc e))
      | Response status body_text (Inr response_data) \<Rightarrow>
          if status = 200 then
            and_then (py_get response_data ''candidates'' (JList [])) (\<lambda>candidates.
              if truthy candidates then
                and_then (py_first candidates) (\<lambda>candidate.
                and_then (py_get candidate ''content'' (JDict [])) (\<lambda>content.
                and_then (py_get content ''parts'' (JList [])) (\<lambda>parts.
                and_then (py_iter parts) (\<lambda>part_list.
                and_then (analysis_text part_list '''') (\<lambda>text_response.
                  Inr [(''success'', JBool True),
                       (''message'', JStr ''<U+89C6><U+9891><U+5206><U+6790><U+5B8C><U+6210>''),
                       (''analysis'', JStr text_response),
                       (''raw_response'', response_data),
                       (''metadata'', metadata)])))))
              else
                Inr [(''success'', JBool False),
                     (''message'', JStr ''<U+672A><U+627E><U+5230><U+5206><U+6790><U+7ED3><U+679C>''),
                     (''raw_response'', response_data)])
          else
            and_then (py_get response_data ''error'' (JDict [])) (\<lambda>err.
            and_then (py_get err ''message'' (JStr ''<U+672A><U+77E5><U+9519><U+8BEF>'')) (\<lambda>error_msg.
              Inr [(''success'', JBool False),
                   (''message'', JStr (''API<U+9519><U+8BEF>: '' @ py_str error_msg)),
                   (''raw_response'', response_data)])))"

text \<open>\<open>api_key or self.api_key\<close>.\<close>

definition effective_key :: "string option \<Rightarrow> string option \<Rightarrow> string option" where
  "effective_key key_arg own_key = (if truthy_str key_arg then key_arg else own_key)"

text \<open>The outer \<open>try\<close> block of \<open>analyze_video\<close>, with the requests it performs.\<close>

definition analyze_video_try ::
    "VideoAnalysisService \<Rightarrow> analysis_env \<Rightarrow> string \<Rightarrow> string \<Rightarrow> string
       \<Rightarrow> (py_exc + pydict) \<times> http_request list" where
  "analyze_video_try self env video_path prompt key =
     (if \<not> path_exists env video_path
      then (Inr (failure (''<U+89C6><U+9891><U+6587><U+4EF6><U+4E0D><U+5B58><U+5728>: '' @ video_path)), [])
      else
        (case stat_size env video_path of
           Inl e \<Rightarrow> (Inl e, [])
         | Inr file_size \<Rightarrow>
             let max_size = 100 * 1024 * 1024 in
             if file_size > max_size
             then (Inr (failure (''<U+89C6><U+9891><U+6587><U+4EF6><U+8FC7><U+5927>: '' @ fmt_megabytes 1 file_size
                                  @ ''MB / '' @ fmt_megabytes 0 max_size @ ''MB'')), [])
             else
               (case encode_video_to_base64 env video_path of
                  Inl e \<Rightarrow> (Inl e, [])
                | Inr video_base64 \<Rightarrow>
                    (case open_connection env (host self) of
                       Some e \<Rightarrow> (Inl e, [])
                     | None \<Rightarrow>
                         let request = analysis_request self key (analysis_payload video_base64 prompt)
                         in (analysis_result
                               ''<U+8BF7><U+6C42><U+8D85><U+65F6><U+FF08>180<U+79D2><U+FF09><U+3002><U+89C6><U+9891><U+6587><U+4EF6><U+53EF><U+80FD><U+592A><U+5927><U+6216><U+7F51><U+7EDC><U+8F83><U+6162><U+FF0C><U+5EFA><U+8BAE><U+4F7F><U+7528><U+66F4><U+5C0F><U+7684><U+89C6><U+9891><U+FF08><50MB<U+FF09>''
                               (JDict [(''model'', JStr (model self)),
                                       (''prompt'', JStr prompt),
                                       (''video_path'', JStr video_path),
                                       (''video_size'', JInt (int file_size)),
                                       (''video_size_human'', JStr (fmt_megabytes 2 file_size @ ''MB''))])
                               (exchange env request),
                             [request])))))"

definition analyze_video ::
    "VideoAnalysisService \<Rightarrow> analysis_env \<Rightarrow> string \<Rightarrow> string \<Rightarrow> string option
       \<Rightarrow> pydict \<times> http_request list" where
  "analyze_video self env video_path prompt key_arg =
     (let key = effective_key key_arg (api_key self) in
      if no_key key then (failure ''API<U+5BC6><U+94A5><U+672A><U+914D><U+7F6E>'', [])
      else
        (case analyze_video_try self env video_path prompt (key_text key) of
           (Inr result, calls) \<Rightarrow> (result, calls)
         | (Inl e, calls) \<Rightarrow>
             (failure (''<U+89C6><U+9891><U+5206><U+6790><U+5931><U+8D25>: '' @ str_exc e), calls)))"

definition analyze_video_from_base64_try ::
    "VideoAnalysisService \<Rightarrow> analysis_env \<Rightarrow> string \<Rightarrow> string \<Rightarrow> string
       \<Rightarrow> (py_exc + pydict) \<times> http_request list" where
  "analyze_video_from_base64_try self env video_base64 prompt key =
     (case open_connection env (host self) of
        Some e \<Rightarrow> (Inl e, [])
      | None \<Rightarrow>
          let request = analysis_request self key (analysis_payload video_base64 prompt)
          in (analysis_result
                ''<U+8BF7><U+6C42><U+8D85><U+65F6><U+FF08>180<U+79D2><U+FF09><U+3002><U+5EFA><U+8BAE><U+4F7F><U+7528><U+66F4><U+5C0F><U+7684><U+89C6><U+9891><U+6587><U+4EF6>''
                (JDict [(''model'', JStr (model self)), (''prompt'', JStr prompt)])
                (exchange env request),
              [request]))"

definition analyze_video_from_base64 ::
    "VideoAnalysisService \<Rightarrow> analysis_env \<Rightarrow> string \<Rightarrow> string \<Rightarrow> string option
       \<Rightarrow> pydict \<times> http_request list" where
  "analyze_video_from_base64 self env video_base64 prompt key_arg =
     (let key = effective_key key_arg (api_key self) in
      if no_key key then (failure ''API<U+5BC6><U+94A5><U+672A><U+914D><U+7F6E>'', [])
      else
        (case analyze_video_from_base64_try self env video_base64 prompt (key_text key) of
           (Inr result, calls) \<Rightarrow> (result, calls)
         | (Inl e, calls) \<Rightarrow>
             (failure (''<U+89C6><U+9891><U+5206><U+6790><U+5931><U+8D25>: '' @ str_exc e), calls)))"

section \<open>The history store (\<open>history.py\<close>)\<close>

text \<open>
  The SQLite table \<open>history\<close>. A row has the integer key \<open>id\<close>, the columns \<open>type\<close>,
  \<open>prompt\<close>, \<open>response\<close> and \<open>metadata\<close> (the JSON text, kept here as the value it
  encodes) and \<open>created_at\<close>, which \<open>CURRENT_TIMESTAMP\<close> fills with the time of the insert
  to the second: a number of seconds here, since the text \<open>YYYY-MM-DD HH:MM:SS\<close> orders as
  the instant it names. The database is the rows in the order of their keys (the order
  of a table scan) and the counter that \<open>AUTOINCREMENT\<close> keeps in \<open>sqlite_sequence\<close>.
  Every method opens its own connection and commits; failures of the database engine
  are not modelled.
\<close>

record history_row =
  h_id :: int
  h_type :: string
  h_prompt :: string
  h_response :: string
  h_metadata :: json
  h_created_at :: nat

record history_db =
  h_table :: "history_row list"
  h_sequence :: int

text \<open>\<open>init_db\<close> on a new file: \<open>CREATE TABLE IF NOT EXISTS\<close> leaves an existing table alone.\<close>

definition init_db :: "history_db option \<Rightarrow> history_db" where
  "init_db existing = (case existing of None \<Rightarrow> \<lparr>h_table = [], h_sequence = 0\<rparr> | Some db \<Rightarrow> db)"

text \<open>\<open>add_history\<close>; \<open>now\<close> is the clock at the insert. The key is one more than the
  largest key the table has ever held.\<close>

definition add_history ::
    "history_db \<Rightarrow> nat \<Rightarrow> string \<Rightarrow> string \<Rightarrow> string \<Rightarrow> json \<Rightarrow> int \<times> history_db" where
  "add_history db now type_arg prompt response metadata =
     (let metadata_json = (if truthy metadata then metadata else JDict []);
          record_id = fold max (map h_id (h_table db)) (h_sequence db) + 1;
          row = \<lparr>h_id = record_id, h_type = type_arg, h_prompt = prompt, h_response = response,
                 h_metadata = metadata_json, h_created_at = now\<rparr>
      in (record_id, \<lparr>h_table = h_table db @ [row], h_sequence = record_id\<rparr>))"





text \<open>\<open>clear_history\<close>: \<open>DELETE FROM history\<close> empties the table and leaves the counter.\<close>

definition clear_history :: "history_db \<Rightarrow> history_db" where
  "clear_history db = db\<lparr>h_table := []\<rparr>"


section \<open>The routers\<close>

subsection \<open>History (\<open>routers/history.py\<close>)\<close>

text \<open>What an endpoint gives back: a JSON body, or an \<open>HTTPException\<close> with its status code
  and detail.\<close>

datatype http_reply = Reply pydict | HTTPException int string

text \<open>
  The attribute \<open>delete_history\<close> of the history manager, which \<open>delete_history_item\<close>
  calls. The class \<open>HistoryManager\<close> defines \<open>__init__\<close>, \<open>init_db\<close>, \<open>add_history\<close>,
  \<open>get_history\<close> and \<open>clear_history\<close>, and nothing in the repository adds to it: looking
  the attribute up raises \<open>AttributeError\<close>.
\<close>

datatype 'm attribute = Found 'm | NoAttribute py_exc

definition history_manager_delete_history :: "(history_db \<Rightarrow> int \<Rightarrow> bool \<times> history_db) attribute" where
  "history_manager_delete_history =
     NoAttribute (AttributeError (quoted ''HistoryManager'' @ '' object has no attribute ''
                                  @ quoted ''delete_history''))"

text \<open>\<open>delete_history_item\<close>: an \<open>HTTPException\<close> passes through, any other exception
  becomes status 500 with the exception's text.\<close>

definition delete_history_item :: "history_db \<Rightarrow> int \<Rightarrow> http_reply \<times> history_db" where
  "delete_history_item db item_id =
     (case history_manager_delete_history of
        NoAttribute e \<Rightarrow> (HTTPException 500 (str_exc e), db)
      | Found delete_history \<Rightarrow>
          (case delete_history db item_id of
             (success, db') \<Rightarrow>
               if success
               then (Reply [(''success'', JBool True), (''message'', JStr ''History item deleted'')], db')
               else (HTTPException 404 ''History item not found'', db')))"

subsection \<open>VEO video generation (\<open>routers/video.py\<close>)\<close>

record VeoVideoGenerationRequest =
  v_prompt :: string
  v_model :: "string option"
  v_aspect_ratio :: "string option"
  v_enhance_prompt :: "bool option"
  v_upsample :: "bool option"
  v_image_data :: "string option"
  v_images :: "string list option"

definition image_supported_models :: "string list" where
  "image_supported_models = [''veo3-fast-frames'', ''veo2-fast-frames'', ''veo2-fast-components'']"

text \<open>\<open>request.model in image_supported_models\<close>; \<open>None\<close> is in no list of strings.\<close>

definition model_supports_images :: "string option \<Rightarrow> bool" where
  "model_supports_images m = (case m of None \<Rightarrow> False | Some name \<Rightarrow> name \<in> set image_supported_models)"

text \<open>The truthiness of an optional list.\<close>

definition truthy_list :: "'a list option \<Rightarrow> bool" where
  "truthy_list v = (case v of None \<Rightarrow> False | Some xs \<Rightarrow> xs \<noteq> [])"

text \<open>The image handling of \<open>generate_veo_video\<close>: the pair \<open>(images, has_images)\<close> as it
  stands when the service is called.\<close>

definition veo_router_images :: "VeoVideoGenerationRequest \<Rightarrow> string list option \<times> bool" where
  "veo_router_images request =
     (let (images, has_images) =
            (if truthy_list (v_images request)
             then (v_images request, length (the (v_images request)) > 0)
             else if truthy_str (v_image_data request)
             then (Some [the (v_image_data request)], True)
             else (None, False));
          (images, has_images) =
            (if has_images \<and> \<not> model_supports_images (v_model request)
             then (None, False)
             else (images, has_images));
          images =
            (if truthy_list images \<and> model_supports_images (v_model request) then
               if v_model request = Some ''veo3-fast-frames'' then Some (take 1 (the images))
               else if v_model request = Some ''veo2-fast-frames'' then Some (take 2 (the images))
               else if v_model request = Some ''veo2-fast-components'' then Some (take 3 (the images))
               else images
             else images)
      in (images, has_images))"

text \<open>The images a request supplies: the \<open>images\<close> array when it is not empty, otherwise
  the single \<open>image_data\<close> when there is one.\<close>

definition supplied_images :: "VeoVideoGenerationRequest \<Rightarrow> string list" where
  "supplied_images request =
     (if truthy_list (v_images request) then the (v_images request)
      else if truthy_str (v_image_data request) then [the (v_image_data request)]
      else [])"

text \<open>The images a request to the provider carries: the \<open>images\<close> field of its JSON body,
  none when the body has no such field.\<close>

definition request_images :: "http_request \<Rightarrow> json list" where
  "request_images request =
     (case req_json request of
        JDict payload \<Rightarrow> (case map_of payload ''images'' of Some (JList xs) \<Rightarrow> xs | _ \<Rightarrow> [])
      | _ \<Rightarrow> [])"

text \<open>\<open>generate_veo_video\<close> up to the call of the service (the history write and the reply
  that follow are not part of this definition).\<close>

definition generate_veo_video_call ::
    "VeoVideoService \<Rightarrow> transport \<Rightarrow> VeoVideoGenerationRequest \<Rightarrow> pydict \<times> http_request list" where
  "generate_veo_video_call veo_service net request =
     veo_create_video veo_service net (v_prompt request) (v_model request) (v_aspect_ratio request)
       (v_enhance_prompt request) (v_upsample request) (fst (veo_router_images request))"

section \<open>Properties\<close>

subsection \<open>Strings\<close>

lemma py_strip_nonspace_ends:
  assumes "s \<noteq> []" "\<not> is_space (hd s)" "\<not> is_space (last s)"
  shows "py_strip s = s"
proof -
  from assms have a: "dropWhile is_space s = s"
    by (simp add: dropWhile_eq_self_iff)
  from assms have b: "dropWhile is_space (rev s) = rev s"
    by (simp add: dropWhile_eq_self_iff hd_rev)
  show ?thesis
    by (simp add: py_strip_def a b)
qed

lemma py_strip_ends:
  assumes "py_strip s \<noteq> []"
  shows "\<not> is_space (hd (py_strip s)) \<and> \<not> is_space (last (py_strip s))"
proof -
  define a where "a = dropWhile is_space s"
  define b where "b = dropWhile is_space (rev a)"
  have ps: "py_strip s = rev b"
    by (simp add: py_strip_def a_def b_def)
  from assms have nb: "b \<noteq> []"
    by (simp add: ps)
  then have hb: "\<not> is_space (hd b)"
    unfolding b_def by (rule hd_dropWhile)
  have lastb: "last (py_strip s) = hd b"
    using nb by (simp add: ps last_rev)
  from nb have na: "a \<noteq> []"
    by (auto simp: b_def)
  then have ha: "\<not> is_space (hd a)"
    unfolding a_def by (rule hd_dropWhile)
  have "rev a = takeWhile is_space (rev a) @ b"
    by (simp add: b_def)
  then have "a = rev b @ rev (takeWhile is_space (rev a))"
    by (metis rev_append rev_rev_ident)
  then have "hd a = hd (rev b)"
    using nb by (metis hd_append2 rev_is_Nil_conv)
  then have "hd (py_strip s) = hd a"
    by (simp add: ps)
  with ha hb lastb show ?thesis
    by simp
qed

lemma py_strip_idem: "py_strip (py_strip s) = py_strip s"
proof (cases "py_strip s = []")
  case True
  have "py_strip [] = []"
    by (simp add: py_strip_def)
  with True show ?thesis
    by simp
next
  case False
  with py_strip_ends [OF False] show ?thesis
    by (intro py_strip_nonspace_ends) simp_all
qed

subsection \<open>Deleting a history record\<close>

text \<open>
  C1. The spec gives the store a \<open>delete\<close> that returns true when the record existed and
  was removed and false when it did not. The endpoint \<open>delete_history_item\<close> calls
  \<open>history_manager.delete_history\<close> and expects that boolean, but the class has no such
  method: for every store and every id the call raises \<open>AttributeError\<close>, which the endpoint
  turns into status 500, and the store is left as it was. Here a store holds one record
  with id 1; deleting 1 fails and the record stays.
\<close>

theorem delete_history_item_existing_record:
  "map h_id (h_table (snd (add_history (init_db None) 1700000000 ''chat'' ''hi'' ''hello'' JNull))) = [1]
   \<and> delete_history_item (snd (add_history (init_db None) 1700000000 ''chat'' ''hi'' ''hello'' JNull)) 1
       = (HTTPException 500
            (quoted ''HistoryManager'' @ '' object has no attribute '' @ quoted ''delete_history''),
          snd (add_history (init_db None) 1700000000 ''chat'' ''hi'' ''hello'' JNull))"
  by (simp add: delete_history_item_def history_manager_delete_history_def add_history_def init_db_def)

subsection \<open>The message field of the results\<close>











paragraph \<open>Video generation\<close>











paragraph \<open>Image generation\<close>










paragraph \<open>Chat\<close>





paragraph \<open>Video analysis\<close>








subsection \<open>The order of the history listing\<close>














subsection \<open>The pixel size derivation\<close>







subsection \<open>A failed video task\<close>

lemma query_result_failed:
  "map_of (sora_query_result task_id (JStr ''failed'') video_url enhanced_prompt) ''success'' = Some (JBool False)"
  "map_of (veo_query_result task_id (JStr ''failed'') video_url enhanced_prompt) ''success'' = Some (JBool False)"
  by (simp_all add: sora_query_result_def veo_query_result_def)

lemma sora_query_failed:
  assumes "\<not> no_key (api_key self)"
    and "net (query_request self task_id) = Response 200 body_text (Inr (JDict obj))"
    and "map_of obj ''status'' = Some (JStr ''failed'')"
  shows "map_of (fst (sora_query_video self net task_id)) ''success'' = Some (JBool False)"
proof -
  have "sora_query_try task_id (net (query_request self task_id)) =
          Inr (sora_query_result task_id (JStr ''failed'')
                 (case map_of obj ''video_url'' of Some v \<Rightarrow> v | None \<Rightarrow> JNull)
                 (case map_of obj ''enhanced_prompt'' of Some v \<Rightarrow> v | None \<Rightarrow> JNull))"
    using assms(2,3) by (simp add: sora_query_try_def and_then_def py_get_def)
  with assms(1) show ?thesis
    by (simp add: sora_query_video_def Let_def query_result_failed)
qed

lemma veo_query_failed:
  assumes "\<not> no_key (api_key self)"
    and "net (query_request self task_id) = Response 200 body_text (Inr (JDict obj))"
    and "map_of obj ''status'' = Some (JStr ''failed'')"
  shows "map_of (fst (veo_query_video self net task_id)) ''success'' = Some (JBool False)"
proof -
  have "veo_query_try task_id (net (query_request self task_id)) =
          Inr (veo_query_result task_id (JStr ''failed'')
                 (case map_of obj ''video_url'' of Some v \<Rightarrow> v | None \<Rightarrow> JNull)
                 (case map_of obj ''enhanced_prompt'' of Some v \<Rightarrow> v | None \<Rightarrow> JNull))"
    using assms(2,3) by (simp add: veo_query_try_def and_then_def py_get_def)
  with assms(1) show ?thesis
    by (simp add: veo_query_video_def Let_def query_result_failed)
qed

text \<open>
  C5. When the provider answers a status query with HTTP status 200 and a JSON object
  whose \<open>status\<close> is the string \<open>failed\<close>, the result of \<open>query_video\<close> has
  \<open>success = False\<close>, for the Sora adapter and for the VEO adapter.
\<close>

theorem query_video_failed_status:
  "(\<not> no_key (api_key sora) \<and>
    net (query_request sora task_id) = Response 200 body_text (Inr (JDict obj)) \<and>
    map_of obj ''status'' = Some (JStr ''failed'')
      \<longrightarrow> map_of (fst (sora_query_video sora net task_id)) ''success'' = Some (JBool False))
   \<and>
   (\<not> no_key (api_key veo) \<and>
    net' (query_request veo task_id') = Response 200 body_text' (Inr (JDict obj')) \<and>
    map_of obj' ''status'' = Some (JStr ''failed'')
      \<longrightarrow> map_of (fst (veo_query_video veo net' task_id')) ''success'' = Some (JBool False))"
  using sora_query_failed veo_query_failed by blast

text \<open>A key, a provider that answers 200 with \<open>{"status": "failed"}\<close>: both adapters
  report a failure.\<close>

theorem query_video_failed_status_witness:
  "map_of (fst (sora_query_video
                  \<lparr>api_key = Some ''sk-test'', base_url = ''https://yunwu.ai'', model = ''sora-2'',
                    create_endpoint = ''https://yunwu.ai/v1/video/create'',
                    query_endpoint = ''https://yunwu.ai/v1/video/query''\<rparr>
                  (\<lambda>request. Response 200 ''{\"status\": \"failed\"}'' (Inr (JDict [(''status'', JStr ''failed'')])))
                  ''task-1'')) ''success'' = Some (JBool False)
   \<and>
   map_of (fst (veo_query_video
                  \<lparr>api_key = Some ''sk-test'', base_url = ''https://yunwu.ai'', model = ''veo3-fast'',
                    create_endpoint = ''https://yunwu.ai/v1/video/create'',
                    query_endpoint = ''https://yunwu.ai/v1/video/query''\<rparr>
                  (\<lambda>request. Response 200 ''{\"status\": \"failed\"}'' (Inr (JDict [(''status'', JStr ''failed'')])))
                  ''task-2'')) ''success'' = Some (JBool False)"
  using query_video_failed_status
          [of "\<lparr>api_key = Some ''sk-test'', base_url = ''https://yunwu.ai'', model = ''sora-2'',
                    create_endpoint = ''https://yunwu.ai/v1/video/create'',
                    query_endpoint = ''https://yunwu.ai/v1/video/query''\<rparr>"
              "\<lambda>request. Response 200 ''{\"status\": \"failed\"}'' (Inr (JDict [(''status'', JStr ''failed'')]))"
              "''task-1''" "''{\"status\": \"failed\"}''" "[(''status'', JStr ''failed'')]"
              "\<lparr>api_key = Some ''sk-test'', base_url = ''https://yunwu.ai'', model = ''veo3-fast'',
                    create_endpoint = ''https://yunwu.ai/v1/video/create'',
                    query_endpoint = ''https://yunwu.ai/v1/video/query''\<rparr>"
              "\<lambda>request. Response 200 ''{\"status\": \"failed\"}'' (Inr (JDict [(''status'', JStr ''failed'')]))"
              "''task-2''" "''{\"status\": \"failed\"}''" "[(''status'', JStr ''failed'')]"]
  by (simp add: no_key_def truthy_str_def)

subsection \<open>A missing credential\<close>

lemma refused_failure: "refused (failure m, [])"
  by (simp add: refused_def failure_def)

lemma refused_error: "refused ([(''success'', JBool False), (''error'', e)], [])"
  by (simp add: refused_def)

lemma no_key_dalle:
  "no_key (api_key self) \<Longrightarrow> refused (dalle_generate_image self net prompt size_opt quality n)"
  by (simp add: dalle_generate_image_def refused_error)

lemma no_key_sd:
  "no_key (api_key self) \<Longrightarrow> refused (sd_generate_image self net prompt width height steps)"
  by (simp add: sd_generate_image_def refused_error)

lemma no_key_gemini:
  "no_key (api_key self) \<Longrightarrow>
   refused (gemini_generate_image self net prompt aspect_ratio image_size reference_image)"
  by (simp add: gemini_generate_image_def refused_failure)

lemma no_key_doubao:
  "no_key (api_key self) \<Longrightarrow>
   refused (doubao_generate_image self net prompt aspect_ratio image_size reference_image
              response_format sequential_mode max_images watermark kwargs)"
  by (simp add: doubao_generate_image_def refused_failure)

lemma no_key_chat:
  "no_key (api_key self) \<Longrightarrow> refused (chat_completion self net messages model_override)"
  by (simp add: chat_completion_def refused_failure)

lemma no_key_mimo:
  "no_key (api_key self) \<Longrightarrow> refused (mimo_chat_completion self net messages model_override)"
  by (simp add: mimo_chat_completion_def refused_failure)

lemma no_key_sora_create:
  "no_key (api_key self) \<Longrightarrow>
   refused (sora_create_video self net prompt orientation duration watermark private_flag images)"
  by (simp add: sora_create_video_def refused_failure)

lemma no_key_sora_query:
  "no_key (api_key self) \<Longrightarrow> refused (sora_query_video self net task_id)"
  by (simp add: sora_query_video_def refused_failure)

lemma no_key_veo_create:
  "no_key (api_key self) \<Longrightarrow>
   refused (veo_create_video self net prompt model_arg aspect_ratio enhance_prompt enable_upsample images)"
  by (simp add: veo_create_video_def refused_failure)

lemma no_key_veo_query:
  "no_key (api_key self) \<Longrightarrow> refused (veo_query_video self net task_id)"
  by (simp add: veo_query_video_def refused_failure)

lemma no_key_analyze_video:
  "no_key (effective_key key_arg (api_key self)) \<Longrightarrow>
   refused (analyze_video self env video_path prompt key_arg)"
  by (simp add: analyze_video_def refused_failure)

lemma no_key_analyze_video_from_base64:
  "no_key (effective_key key_arg (api_key self)) \<Longrightarrow>
   refused (analyze_video_from_base64 self env video_base64 prompt key_arg)"
  by (simp add: analyze_video_from_base64_def refused_failure)

lemma api_key_init:
  "api_key (DalleService_init key) = key"
  "api_key (StableDiffusionService_init key) = key"
  "api_key (GeminiImageService_init key url model_name mode) = key"
  "api_key (DoubaoImageService_init key url model_name) = key"
  "api_key (ChatService_init key url model_name) = key"
  "api_key (MimoChatService_init key url model_name temp nucleus max_tokens) = key"
  "api_key (VideoService_init key url model_name) = key"
  "api_key (VideoAnalysisService_init key url model_name) = key"
  by (simp_all add: DalleService_init_def StableDiffusionService_init_def GeminiImageService_init_def
        DoubaoImageService_init_def ChatService_init_def MimoChatService_init_def VideoService_init_def
        VideoAnalysisService_init_def Let_def)

text \<open>
  C6. For every adapter operation: when the credential is not configured (the key of
  the service object is missing and, for video analysis, the call passes none either),
  the operation reports \<open>success = False\<close> and performs no network request.
\<close>

theorem missing_credential_no_network:
  "(no_key (api_key dalle) \<longrightarrow> refused (dalle_generate_image dalle net prompt size_opt quality n))
   \<and> (no_key (api_key sd) \<longrightarrow> refused (sd_generate_image sd net prompt width height steps))
   \<and> (no_key (api_key gemini) \<longrightarrow>
        refused (gemini_generate_image gemini net prompt aspect_ratio image_size reference_image))
   \<and> (no_key (api_key doubao) \<longrightarrow>
        refused (doubao_generate_image doubao net prompt aspect_ratio image_size reference
                   response_format sequential_mode max_images watermark kwargs))
   \<and> (no_key (api_key chat) \<longrightarrow> refused (chat_completion chat net messages model_override))
   \<and> (no_key (api_key mimo) \<longrightarrow> refused (mimo_chat_completion mimo net messages model_override))
   \<and> (no_key (api_key sora) \<longrightarrow>
        refused (sora_create_video sora net prompt orientation duration watermark private_flag images)
        \<and> refused (sora_query_video sora net task_id))
   \<and> (no_key (api_key veo) \<longrightarrow>
        refused (veo_create_video veo net prompt model_arg veo_ratio enhance_prompt enable_upsample images)
        \<and> refused (veo_query_video veo net task_id))
   \<and> (no_key (effective_key key_arg (api_key analysis)) \<longrightarrow>
        refused (analyze_video analysis env video_path prompt key_arg)
        \<and> refused (analyze_video_from_base64 analysis env video_data prompt key_arg))"
  by (intro conjI impI no_key_dalle no_key_sd no_key_gemini no_key_doubao no_key_chat no_key_mimo
        no_key_sora_create no_key_sora_query no_key_veo_create no_key_veo_query
        no_key_analyze_video no_key_analyze_video_from_base64)

text \<open>Service objects constructed without a key, on a network that would raise: each
  operation is refused.\<close>

theorem missing_credential_no_network_witness:
  "refused (dalle_generate_image (DalleService_init None)
              (\<lambda>request. Raised (OtherException ''no network'')) ''a red cat'' ''1024x1024'' ''standard'' 1)
   \<and> refused (sd_generate_image (StableDiffusionService_init None)
              (\<lambda>request. Raised (OtherException ''no network'')) ''a red cat'' 1024 1024 30)
   \<and> refused (gemini_generate_image
              (GeminiImageService_init None ''https://yunwu.ai'' ''gemini-2.5-flash-image'' None)
              (\<lambda>request. Raised (OtherException ''no network'')) ''a red cat'' ''16:9'' ''1K'' None)
   \<and> refused (doubao_generate_image
              (DoubaoImageService_init None ''https://yunwu.ai'' ''doubao-seedream-4-0-250828'')
              (\<lambda>request. Raised (OtherException ''no network'')) ''a red cat'' ''16:9'' ''1K'' None
              ''b64_json'' ''disabled'' 1 False [])
   \<and> refused (chat_completion (ChatService_init None ''https://yunwu.ai/v1'' ''gpt-5.2-2025-12-11'')
              (\<lambda>request. Raised (OtherException ''no network''))
              [JDict [(''role'', JStr ''user''), (''content'', JStr ''hello'')]] None)
   \<and> refused (mimo_chat_completion
              (MimoChatService_init None ''https://api.xiaomimimo.com/v1'' ''mimo-v2-flash'' (4 / 5) (19 / 20) 1024)
              (\<lambda>request. Raised (OtherException ''no network''))
              [JDict [(''role'', JStr ''user''), (''content'', JStr ''hello'')]] None)
   \<and> refused (sora_create_video (VideoService_init None ''https://yunwu.ai/v1'' ''sora-2'')
              (\<lambda>request. Raised (OtherException ''no network'')) ''a red cat'' (Some ''landscape'') (Some 15)
              False True None)
   \<and> refused (sora_query_video (VideoService_init None ''https://yunwu.ai/v1'' ''sora-2'')
              (\<lambda>request. Raised (OtherException ''no network'')) ''task-1'')
   \<and> refused (veo_create_video (VideoService_init None ''https://yunwu.ai'' ''veo3-fast'')
              (\<lambda>request. Raised (OtherException ''no network'')) ''a red cat'' (Some ''veo3-fast'')
              (Some ''16:9'') (Some True) (Some True) None)
   \<and> refused (veo_query_video (VideoService_init None ''https://yunwu.ai'' ''veo3-fast'')
              (\<lambda>request. Raised (OtherException ''no network'')) ''task-1'')
   \<and> refused (analyze_video (VideoAnalysisService_init None ''https://yunwu.ai'' ''gemini-2.5-pro'')
              \<lparr>path_exists = (\<lambda>p. True), stat_size = (\<lambda>p. Inr 1024), read_base64 = (\<lambda>p. Inr ''AAAA''),
                open_connection = (\<lambda>h. None),
                exchange = (\<lambda>request. Raised (OtherException ''no network''))\<rparr>
              ''uploads/cat.mp4'' ''a red cat'' None)
   \<and> refused (analyze_video_from_base64
              (VideoAnalysisService_init None ''https://yunwu.ai'' ''gemini-2.5-pro'')
              \<lparr>path_exists = (\<lambda>p. True), stat_size = (\<lambda>p. Inr 1024), read_base64 = (\<lambda>p. Inr ''AAAA''),
                open_connection = (\<lambda>h. None),
                exchange = (\<lambda>request. Raised (OtherException ''no network''))\<rparr>
              ''AAAA'' ''a red cat'' None)"
  using missing_credential_no_network
    [where dalle = "DalleService_init None"
       and sd = "StableDiffusionService_init None"
       and gemini = "GeminiImageService_init None ''https://yunwu.ai'' ''gemini-2.5-flash-image'' None"
       and doubao = "DoubaoImageService_init None ''https://yunwu.ai'' ''doubao-seedream-4-0-250828''"
       and chat = "ChatService_init None ''https://yunwu.ai/v1'' ''gpt-5.2-2025-12-11''"
       and mimo = "MimoChatService_init None ''https://api.xiaomimimo.com/v1'' ''mimo-v2-flash'' (4 / 5) (19 / 20) 1024"
       and sora = "VideoService_init None ''https://yunwu.ai/v1'' ''sora-2''"
       and veo = "VideoService_init None ''https://yunwu.ai'' ''veo3-fast''"
       and analysis = "VideoAnalysisService_init None ''https://yunwu.ai'' ''gemini-2.5-pro''"
       and net = "\<lambda>request. Raised (OtherException ''no network'')"
       and env = "\<lparr>path_exists = (\<lambda>p. True), stat_size = (\<lambda>p. Inr 1024), read_base64 = (\<lambda>p. Inr ''AAAA''),
                    open_connection = (\<lambda>h. None),
                    exchange = (\<lambda>request. Raised (OtherException ''no network''))\<rparr>"
       and prompt = "''a red cat''" and size_opt = "''1024x1024''" and quality = "''standard''" and n = 1
       and width = 1024 and height = 1024 and steps = 30
       and aspect_ratio = "''16:9''" and image_size = "''1K''" and reference_image = None
       and reference = None and response_format = "''b64_json''" and sequential_mode = "''disabled''"
       and max_images = 1 and watermark = False and kwargs = "[]"
       and messages = "[JDict [(''role'', JStr ''user''), (''content'', JStr ''hello'')]]"
       and model_override = None
       and orientation = "Some ''landscape''" and duration = "Some 15" and private_flag = True
       and images = None and task_id = "''task-1''"
       and model_arg = "Some ''veo3-fast''" and veo_ratio = "Some ''16:9''"
       and enhance_prompt = "Some True" and enable_upsample = "Some True"
       and key_arg = None and video_path = "''uploads/cat.mp4''" and video_data = "''AAAA''"]
  by (simp add: api_key_init no_key_def truthy_str_def effective_key_def)

subsection \<open>An empty credential\<close>

lemma no_key_outcome:
  "no_key (api_key dalle) \<Longrightarrow>
     dalle_generate_image dalle net prompt size_opt quality n =
       ([(''success'', JBool False), (''error'', JStr ''DALL-E API key not configured'')], [])"
  "no_key (api_key sd) \<Longrightarrow>
     sd_generate_image sd net prompt width height steps =
       ([(''success'', JBool False), (''error'', JStr ''Stability AI API key not configured'')], [])"
  "no_key (api_key gemini) \<Longrightarrow>
     gemini_generate_image gemini net prompt aspect_ratio image_size reference_image =
       (failure ''Gemini API key not configured'', [])"
  "no_key (api_key doubao) \<Longrightarrow>
     doubao_generate_image doubao net prompt aspect_ratio image_size reference
       response_format sequential_mode max_images watermark kwargs =
       (failure ''Doubao API key not configured'', [])"
  "no_key (api_key chat) \<Longrightarrow>
     chat_completion chat net messages model_override = (failure ''API key not configured'', [])"
  "no_key (api_key mimo) \<Longrightarrow>
     mimo_chat_completion mimo net messages model_override = (failure ''MiMO API key not configured'', [])"
  "no_key (api_key sora) \<Longrightarrow>
     sora_create_video sora net prompt orientation duration watermark private_flag images =
       (failure ''Sora API key not configured'', [])"
  "no_key (api_key sora) \<Longrightarrow>
     sora_query_video sora net task_id = (failure ''Sora API key not configured'', [])"
  "no_key (api_key veo) \<Longrightarrow>
     veo_create_video veo net prompt model_arg veo_ratio enhance_prompt enable_upsample images =
       (failure ''VEO API key not configured'', [])"
  "no_key (api_key veo) \<Longrightarrow>
     veo_query_video veo net task_id = (failure ''VEO API key not configured'', [])"
  "no_key (effective_key key_arg (api_key analysis)) \<Longrightarrow>
     analyze_video analysis env video_path prompt key_arg =
       (failure ''API<U+5BC6><U+94A5><U+672A><U+914D><U+7F6E>'', [])"
  "no_key (effective_key key_arg (api_key analysis)) \<Longrightarrow>
     analyze_video_from_base64 analysis env video_data prompt key_arg =
       (failure ''API<U+5BC6><U+94A5><U+672A><U+914D><U+7F6E>'', [])"
  by (simp_all add: dalle_generate_image_def sd_generate_image_def gemini_generate_image_def
        doubao_generate_image_def chat_completion_def mimo_chat_completion_def sora_create_video_def
        sora_query_video_def veo_create_video_def veo_query_video_def analyze_video_def
        analyze_video_from_base64_def)

lemma no_key_empty: "no_key (Some '''')" "no_key None"
  "no_key (effective_key None None)" "no_key (effective_key None (Some ''''))"
  "no_key (effective_key (Some '''') None)" "no_key (effective_key (Some '''') (Some ''''))"
  by (simp_all add: no_key_def truthy_str_def effective_key_def)

text \<open>
  C10. An empty string as the key is treated as no key at all: for every adapter
  operation, the service object with \<open>api_key = ""\<close> gives exactly the outcome of the
  same object with \<open>api_key = None\<close>, which is a failure without any network request. For
  video analysis the same holds for the key passed with the call.
\<close>

theorem empty_key_as_missing_key:
  "dalle_generate_image (dalle\<lparr>api_key := Some ''''\<rparr>) net prompt size_opt quality n
     = dalle_generate_image (dalle\<lparr>api_key := None\<rparr>) net prompt size_opt quality n
   \<and> refused (dalle_generate_image (dalle\<lparr>api_key := Some ''''\<rparr>) net prompt size_opt quality n)
   \<and> sd_generate_image (sd\<lparr>api_key := Some ''''\<rparr>) net prompt width height steps
     = sd_generate_image (sd\<lparr>api_key := None\<rparr>) net prompt width height steps
   \<and> refused (sd_generate_image (sd\<lparr>api_key := Some ''''\<rparr>) net prompt width height steps)
   \<and> gemini_generate_image (gemini\<lparr>api_key := Some ''''\<rparr>) net prompt aspect_ratio image_size reference_image
     = gemini_generate_image (gemini\<lparr>api_key := None\<rparr>) net prompt aspect_ratio image_size reference_image
   \<and> refused (gemini_generate_image (gemini\<lparr>api_key := Some ''''\<rparr>) net prompt aspect_ratio image_size
                reference_image)
   \<and> doubao_generate_image (doubao\<lparr>api_key := Some ''''\<rparr>) net prompt aspect_ratio image_size reference
       response_format sequential_mode max_images watermark kwargs
     = doubao_generate_image (doubao\<lparr>api_key := None\<rparr>) net prompt aspect_ratio image_size reference
         response_format sequential_mode max_images watermark kwargs
   \<and> refused (doubao_generate_image (doubao\<lparr>api_key := Some ''''\<rparr>) net prompt aspect_ratio image_size
                reference response_format sequential_mode max_images watermark kwargs)
   \<and> chat_completion (chat\<lparr>api_key := Some ''''\<rparr>) net messages model_override
     = chat_completion (chat\<lparr>api_key := None\<rparr>) net messages model_override
   \<and> refused (chat_completion (chat\<lparr>api_key := Some ''''\<rparr>) net messages model_override)
   \<and> mimo_chat_completion (mimo\<lparr>api_key := Some ''''\<rparr>) net messages model_override
     = mimo_chat_completion (mimo\<lparr>api_key := None\<rparr>) net messages model_override
   \<and> refused (mimo_chat_completion (mimo\<lparr>api_key := Some ''''\<rparr>) net messages model_override)
   \<and> sora_create_video (sora\<lparr>api_key := Some ''''\<rparr>) net prompt orientation duration watermark private_flag images
     = sora_create_video (sora\<lparr>api_key := None\<rparr>) net prompt orientation duration watermark private_flag images
   \<and> refused (sora_create_video (sora\<lparr>api_key := Some ''''\<rparr>) net prompt orientation duration watermark
                private_flag images)
   \<and> sora_query_video (sora\<lparr>api_key := Some ''''\<rparr>) net task_id
     = sora_query_video (sora\<lparr>api_key := None\<rparr>) net task_id
   \<and> refused (sora_query_video (sora\<lparr>api_key := Some ''''\<rparr>) net task_id)
   \<and> veo_create_video (veo\<lparr>api_key := Some ''''\<rparr>) net prompt model_arg veo_ratio enhance_prompt
       enable_upsample images
     = veo_create_video (veo\<lparr>api_key := None\<rparr>) net prompt model_arg veo_ratio enhance_prompt
         enable_upsample images
   \<and> refused (veo_create_video (veo\<lparr>api_key := Some ''''\<rparr>) net prompt model_arg veo_ratio enhance_prompt
                enable_upsample images)
   \<and> veo_query_video (veo\<lparr>api_key := Some ''''\<rparr>) net task_id
     = veo_query_video (veo\<lparr>api_key := None\<rparr>) net task_id
   \<and> refused (veo_query_video (veo\<lparr>api_key := Some ''''\<rparr>) net task_id)
   \<and> analyze_video (analysis\<lparr>api_key := Some ''''\<rparr>) env video_path prompt None
     = analyze_video (analysis\<lparr>api_key := None\<rparr>) env video_path prompt None
   \<and> analyze_video (analysis\<lparr>api_key := None\<rparr>) env video_path prompt (Some '''')
     = analyze_video (analysis\<lparr>api_key := None\<rparr>) env video_path prompt None
   \<and> analyze_video (analysis\<lparr>api_key := Some ''''\<rparr>) env video_path prompt (Some '''')
     = analyze_video (analysis\<lparr>api_key := None\<rparr>) env video_path prompt None
   \<and> refused (analyze_video (analysis\<lparr>api_key := Some ''''\<rparr>) env video_path prompt None)
   \<and> analyze_video_from_base64 (analysis\<lparr>api_key := Some ''''\<rparr>) env video_data prompt None
     = analyze_video_from_base64 (analysis\<lparr>api_key := None\<rparr>) env video_data prompt None
   \<and> analyze_video_from_base64 (analysis\<lparr>api_key := None\<rparr>) env video_data prompt (Some '''')
     = analyze_video_from_base64 (analysis\<lparr>api_key := None\<rparr>) env video_data prompt None
   \<and> analyze_video_from_base64 (analysis\<lparr>api_key := Some ''''\<rparr>) env video_data prompt (Some '''')
     = analyze_video_from_base64 (analysis\<lparr>api_key := None\<rparr>) env video_data prompt None
   \<and> refused (analyze_video_from_base64 (analysis\<lparr>api_key := Some ''''\<rparr>) env video_data prompt None)"
  by (simp add: no_key_outcome no_key_empty refused_failure refused_error)

subsection \<open>Reference images of a VEO request\<close>

lemma veo_router_images_supported:
  assumes "model_supports_images (v_model request)"
  shows "fst (veo_router_images request) =
           (if supplied_images request = [] then None
            else Some (take (if v_model request = Some ''veo3-fast-frames'' then 1
                             else if v_model request = Some ''veo2-fast-frames'' then 2 else 3)
                         (supplied_images request)))"
proof -
  from assms have m:
    "v_model request = Some ''veo3-fast-frames'' \<or> v_model request = Some ''veo2-fast-frames''
     \<or> v_model request = Some ''veo2-fast-components''"
    by (auto simp: model_supports_images_def image_supported_models_def split: option.splits)
  show ?thesis
  proof (cases "truthy_list (v_images request)")
    case True
    with assms m show ?thesis
      by (auto simp: veo_router_images_def supplied_images_def truthy_list_def Let_def
               split: option.splits)
  next
    case False
    with assms m show ?thesis
      by (auto simp: veo_router_images_def supplied_images_def truthy_list_def Let_def)
  qed
qed

lemma veo_router_images_unsupported:
  assumes "\<not> model_supports_images (v_model request)"
  shows "fst (veo_router_images request) = None"
  using assms
  by (auto simp: veo_router_images_def truthy_list_def Let_def split: option.splits)

lemma veo_payload_images:
  "map_of (veo_payload veo prompt model_arg ratio enhance_prompt enable_upsample images) ''images''
     = (case images of None \<Rightarrow> None
        | Some xs \<Rightarrow> if xs \<noteq> [] then Some (JList (map JStr xs)) else None)"
  by (simp add: veo_payload_def Let_def update_conv' split: option.splits)

lemma generate_veo_video_call_images:
  assumes "\<not> no_key (api_key veo)"
  shows "\<exists>sent. snd (generate_veo_video_call veo net request) = [sent] \<and>
           request_images sent =
             map JStr (case fst (veo_router_images request) of None \<Rightarrow> [] | Some xs \<Rightarrow> xs)"
  using assms
  by (simp add: generate_veo_video_call_def veo_create_video_def Let_def request_images_def
        json_post_def veo_payload_images split: option.splits)

text \<open>
  C7. For every VEO generation request: when the selected model is on the allow-list,
  the supplied images are cut to the first \<open>k\<close> that the model takes (1 for
  \<open>veo3-fast-frames\<close>, 2 for \<open>veo2-fast-frames\<close>, 3 for \<open>veo2-fast-components\<close>) before the
  service is called; when it is not on the allow-list, no images are passed to the
  service. The request the service then sends to the provider carries exactly the images
  it was passed.
\<close>

theorem veo_reference_images_forwarded:
  "(v_model request = Some ''veo3-fast-frames'' \<longrightarrow>
      (case fst (veo_router_images request) of None \<Rightarrow> [] | Some xs \<Rightarrow> xs) = take 1 (supplied_images request))
   \<and> (v_model request = Some ''veo2-fast-frames'' \<longrightarrow>
      (case fst (veo_router_images request) of None \<Rightarrow> [] | Some xs \<Rightarrow> xs) = take 2 (supplied_images request))
   \<and> (v_model request = Some ''veo2-fast-components'' \<longrightarrow>
      (case fst (veo_router_images request) of None \<Rightarrow> [] | Some xs \<Rightarrow> xs) = take 3 (supplied_images request))
   \<and> (\<not> model_supports_images (v_model request) \<longrightarrow> fst (veo_router_images request) = None)
   \<and> (\<not> no_key (api_key veo) \<longrightarrow>
        (\<exists>sent. snd (generate_veo_video_call veo net request) = [sent] \<and>
           request_images sent =
             map JStr (case fst (veo_router_images request) of None \<Rightarrow> [] | Some xs \<Rightarrow> xs)))"
proof (intro conjI impI)
  assume "v_model request = Some ''veo3-fast-frames''"
  then show "(case fst (veo_router_images request) of None \<Rightarrow> [] | Some xs \<Rightarrow> xs)
               = take 1 (supplied_images request)"
    by (simp add: veo_router_images_supported model_supports_images_def image_supported_models_def)
next
  assume "v_model request = Some ''veo2-fast-frames''"
  then show "(case fst (veo_router_images request) of None \<Rightarrow> [] | Some xs \<Rightarrow> xs)
               = take 2 (supplied_images request)"
    by (simp add: veo_router_images_supported model_supports_images_def image_supported_models_def)
next
  assume "v_model request = Some ''veo2-fast-components''"
  then show "(case fst (veo_router_images request) of None \<Rightarrow> [] | Some xs \<Rightarrow> xs)
               = take 3 (supplied_images request)"
    by (simp add: veo_router_images_supported model_supports_images_def image_supported_models_def)
next
  assume "\<not> model_supports_images (v_model request)"
  then show "fst (veo_router_images request) = None"
    by (rule veo_router_images_unsupported)
next
  assume "\<not> no_key (api_key veo)"
  then show "\<exists>sent. snd (generate_veo_video_call veo net request) = [sent] \<and>
           request_images sent =
             map JStr (case fst (veo_router_images request) of None \<Rightarrow> [] | Some xs \<Rightarrow> xs)"
    by (rule generate_veo_video_call_images)
qed

text \<open>
  Five images for \<open>veo2-fast-frames\<close>: the first two are sent. The same five for
  \<open>veo3-fast\<close>, which is not on the allow-list: none is sent.
\<close>

theorem veo_reference_images_forwarded_witness:
  "(case fst (veo_router_images
        \<lparr>v_prompt = ''a red cat'', v_model = Some ''veo2-fast-frames'', v_aspect_ratio = Some ''16:9'',
          v_enhance_prompt = Some True, v_upsample = Some True, v_image_data = None,
          v_images = Some [''img1'', ''img2'', ''img3'', ''img4'', ''img5'']\<rparr>) of
      None \<Rightarrow> [] | Some xs \<Rightarrow> xs) = [''img1'', ''img2'']
   \<and> (\<exists>sent. snd (generate_veo_video_call
                     (VideoService_init (Some ''sk-test'') ''https://yunwu.ai'' ''veo3-fast'')
                     (\<lambda>request. Raised (OtherException ''no network''))
                     \<lparr>v_prompt = ''a red cat'', v_model = Some ''veo2-fast-frames'', v_aspect_ratio = Some ''16:9'',
                       v_enhance_prompt = Some True, v_upsample = Some True, v_image_data = None,
                       v_images = Some [''img1'', ''img2'', ''img3'', ''img4'', ''img5'']\<rparr>) = [sent]
         \<and> request_images sent = [JStr ''img1'', JStr ''img2''])
   \<and> fst (veo_router_images
        \<lparr>v_prompt = ''a red cat'', v_model = Some ''veo3-fast'', v_aspect_ratio = Some ''16:9'',
          v_enhance_prompt = Some True, v_upsample = Some True, v_image_data = None,
          v_images = Some [''img1'', ''img2'', ''img3'', ''img4'', ''img5'']\<rparr>) = None
   \<and> (\<exists>sent. snd (generate_veo_video_call
                     (VideoService_init (Some ''sk-test'') ''https://yunwu.ai'' ''veo3-fast'')
                     (\<lambda>request. Raised (OtherException ''no network''))
                     \<lparr>v_prompt = ''a red cat'', v_model = Some ''veo3-fast'', v_aspect_ratio = Some ''16:9'',
                       v_enhance_prompt = Some True, v_upsample = Some True, v_image_data = None,
                       v_images = Some [''img1'', ''img2'', ''img3'', ''img4'', ''img5'']\<rparr>) = [sent]
         \<and> request_images sent = [])"
  using
    veo_reference_images_forwarded
      [where request = "\<lparr>v_prompt = ''a red cat'', v_model = Some ''veo2-fast-frames'',
                          v_aspect_ratio = Some ''16:9'', v_enhance_prompt = Some True,
                          v_upsample = Some True, v_image_data = None,
                          v_images = Some [''img1'', ''img2'', ''img3'', ''img4'', ''img5'']\<rparr>"
         and veo = "VideoService_init (Some ''sk-test'') ''https://yunwu.ai'' ''veo3-fast''"
         and net = "\<lambda>request. Raised (OtherException ''no network'')"]
    veo_reference_images_forwarded
      [where request = "\<lparr>v_prompt = ''a red cat'', v_model = Some ''veo3-fast'',
                          v_aspect_ratio = Some ''16:9'', v_enhance_prompt = Some True,
                          v_upsample = Some True, v_image_data = None,
                          v_images = Some [''img1'', ''img2'', ''img3'', ''img4'', ''img5'']\<rparr>"
         and veo = "VideoService_init (Some ''sk-test'') ''https://yunwu.ai'' ''veo3-fast''"
         and net = "\<lambda>request. Raised (OtherException ''no network'')"]
  by (auto simp add: api_key_init no_key_def truthy_str_def supplied_images_def truthy_list_def
        model_supports_images_def image_supported_models_def)

subsection \<open>Video options outside their range\<close>

lemma valid_option_fixed:
  "sora_valid_orientation (Some (sora_valid_orientation orientation)) = sora_valid_orientation orientation"
  "sora_valid_duration (Some (sora_valid_duration duration)) = sora_valid_duration duration"
  "veo_valid_aspect_ratio (Some (veo_valid_aspect_ratio ratio)) = veo_valid_aspect_ratio ratio"
  by (auto simp: sora_valid_orientation_def sora_valid_duration_def veo_valid_aspect_ratio_def)

lemma sora_create_video_valid:
  "sora_create_video sora net prompt orientation duration watermark private_flag images =
   sora_create_video sora net prompt (Some (sora_valid_orientation orientation))
     (Some (sora_valid_duration duration)) watermark private_flag images"
  by (simp add: sora_create_video_def sora_payload_def valid_option_fixed)

lemma veo_create_video_valid:
  "veo_create_video veo net prompt model_arg ratio enhance_prompt enable_upsample images =
   veo_create_video veo net prompt model_arg (Some (veo_valid_aspect_ratio ratio))
     enhance_prompt enable_upsample images"
  by (simp add: veo_create_video_def veo_payload_def valid_option_fixed)

lemma sora_payload_options:
  "map_of (sora_payload sora prompt orientation duration watermark private_flag images) ''orientation''
     = Some (JStr (sora_valid_orientation orientation))"
  "map_of (sora_payload sora prompt orientation duration watermark private_flag images) ''duration''
     = Some (JInt (sora_valid_duration duration))"
  by (simp_all add: sora_payload_def)

lemma veo_payload_ratio:
  "map_of (veo_payload veo prompt model_arg ratio enhance_prompt enable_upsample images) ''aspect_ratio''
     = Some (JStr (veo_valid_aspect_ratio ratio))"
  by (simp add: veo_payload_def Let_def update_conv' split: option.splits)

lemma sora_create_video_request:
  "\<not> no_key (api_key sora) \<Longrightarrow>
   snd (sora_create_video sora net prompt orientation duration watermark private_flag images) =
     [json_post (create_endpoint sora) (bearer_accept_headers (api_key sora))
        (JDict (sora_payload sora prompt orientation duration watermark private_flag images))]"
  by (simp add: sora_create_video_def Let_def)

lemma veo_create_video_request:
  "\<not> no_key (api_key veo) \<Longrightarrow>
   snd (veo_create_video veo net prompt model_arg ratio enhance_prompt enable_upsample images) =
     [json_post (create_endpoint veo) (bearer_accept_headers (api_key veo))
        (JDict (veo_payload veo prompt model_arg ratio enhance_prompt enable_upsample images))]"
  by (simp add: veo_create_video_def Let_def)

lemma sora_create_video_accepted:
  assumes "\<not> no_key (api_key sora)"
    and "net (json_post (create_endpoint sora) (bearer_accept_headers (api_key sora))
                (JDict (sora_payload sora prompt orientation duration watermark private_flag images)))
           = Response 200 body_text (Inr (JDict obj))"
    and "map_of obj ''id'' = Some task" and "truthy task"
  shows "map_of (fst (sora_create_video sora net prompt orientation duration watermark private_flag images))
           ''success'' = Some (JBool True)
         \<and> map_of (fst (sora_create_video sora net prompt orientation duration watermark private_flag images))
           ''metadata'' = Some (JDict [(''model'', JStr (model sora)),
                                       (''orientation'', JStr (sora_valid_orientation orientation)),
                                       (''duration'', JInt (sora_valid_duration duration)),
                                       (''prompt'', JStr prompt)])"
  using assms by (simp add: sora_create_video_def Let_def sora_create_try_def and_then_def py_get_def)

lemma veo_create_video_accepted:
  assumes "\<not> no_key (api_key veo)"
    and "net (json_post (create_endpoint veo) (bearer_accept_headers (api_key veo))
                (JDict (veo_payload veo prompt model_arg ratio enhance_prompt enable_upsample images)))
           = Response 200 body_text (Inr (JDict obj))"
    and "map_of obj ''id'' = Some task" and "truthy task"
  shows "map_of (fst (veo_create_video veo net prompt model_arg ratio enhance_prompt enable_upsample images))
           ''success'' = Some (JBool True)
         \<and> map_of (fst (veo_create_video veo net prompt model_arg ratio enhance_prompt enable_upsample images))
           ''metadata'' = Some (JDict [(''model'', JStr (veo_use_model veo model_arg)),
                                       (''aspect_ratio'', JStr (veo_valid_aspect_ratio ratio)),
                                       (''enhance_prompt'', opt_bool enhance_prompt),
                                       (''prompt'', JStr prompt)])"
  using assms by (simp add: veo_create_video_def Let_def veo_create_try_def and_then_def py_get_def)

text \<open>
  C8. \<open>create_video\<close> never rejects an option outside its range; it replaces it. For
  Sora an orientation other than \<open>portrait\<close> and \<open>landscape\<close> becomes \<open>landscape\<close> and a
  duration other than 15 and 25 becomes 15; for VEO an aspect ratio other than \<open>16:9\<close> and
  \<open>9:16\<close> becomes \<open>16:9\<close>; an accepted value is kept. The call goes on with the replaced
  values: its outcome is that of the call with the replaced values, the request it sends
  (whenever a key is configured) carries them, and when the provider accepts the task the
  result is a success whose metadata shows them.
\<close>

theorem create_video_replaces_options:
  "(orientation \<notin> {Some ''portrait'', Some ''landscape''} \<longrightarrow> sora_valid_orientation orientation = ''landscape'')
   \<and> (orientation \<in> {Some ''portrait'', Some ''landscape''} \<longrightarrow> Some (sora_valid_orientation orientation) = orientation)
   \<and> (duration \<notin> {Some 15, Some 25} \<longrightarrow> sora_valid_duration duration = 15)
   \<and> (duration \<in> {Some 15, Some 25} \<longrightarrow> Some (sora_valid_duration duration) = duration)
   \<and> (ratio \<notin> {Some ''16:9'', Some ''9:16''} \<longrightarrow> veo_valid_aspect_ratio ratio = ''16:9'')
   \<and> (ratio \<in> {Some ''16:9'', Some ''9:16''} \<longrightarrow> Some (veo_valid_aspect_ratio ratio) = ratio)
   \<and> sora_create_video sora net prompt orientation duration watermark private_flag images =
       sora_create_video sora net prompt (Some (sora_valid_orientation orientation))
         (Some (sora_valid_duration duration)) watermark private_flag images
   \<and> veo_create_video veo net' prompt model_arg ratio enhance_prompt enable_upsample images =
       veo_create_video veo net' prompt model_arg (Some (veo_valid_aspect_ratio ratio))
         enhance_prompt enable_upsample images
   \<and> (\<not> no_key (api_key sora) \<longrightarrow>
        (\<exists>payload.
           snd (sora_create_video sora net prompt orientation duration watermark private_flag images) =
             [json_post (create_endpoint sora) (bearer_accept_headers (api_key sora)) (JDict payload)] \<and>
           map_of payload ''orientation'' = Some (JStr (sora_valid_orientation orientation)) \<and>
           map_of payload ''duration'' = Some (JInt (sora_valid_duration duration)) \<and>
           (\<forall>body_text obj task.
              net (json_post (create_endpoint sora) (bearer_accept_headers (api_key sora)) (JDict payload))
                = Response 200 body_text (Inr (JDict obj)) \<and> map_of obj ''id'' = Some task \<and> truthy task
              \<longrightarrow> map_of (fst (sora_create_video sora net prompt orientation duration watermark
                               private_flag images)) ''success'' = Some (JBool True)
                  \<and> map_of (fst (sora_create_video sora net prompt orientation duration watermark
                               private_flag images)) ''metadata''
                      = Some (JDict [(''model'', JStr (model sora)),
                                     (''orientation'', JStr (sora_valid_orientation orientation)),
                                     (''duration'', JInt (sora_valid_duration duration)),
                                     (''prompt'', JStr prompt)]))))
   \<and> (\<not> no_key (api_key veo) \<longrightarrow>
        (\<exists>payload.
           snd (veo_create_video veo net' prompt model_arg ratio enhance_prompt enable_upsample images) =
             [json_post (create_endpoint veo) (bearer_accept_headers (api_key veo)) (JDict payload)] \<and>
           map_of payload ''aspect_ratio'' = Some (JStr (veo_valid_aspect_ratio ratio)) \<and>
           (\<forall>body_text obj task.
              net' (json_post (create_endpoint veo) (bearer_accept_headers (api_key veo)) (JDict payload))
                = Response 200 body_text (Inr (JDict obj)) \<and> map_of obj ''id'' = Some task \<and> truthy task
              \<longrightarrow> map_of (fst (veo_create_video veo net' prompt model_arg ratio enhance_prompt
                               enable_upsample images)) ''success'' = Some (JBool True)
                  \<and> map_of (fst (veo_create_video veo net' prompt model_arg ratio enhance_prompt
                               enable_upsample images)) ''metadata''
                      = Some (JDict [(''model'', JStr (veo_use_model veo model_arg)),
                                     (''aspect_ratio'', JStr (veo_valid_aspect_ratio ratio)),
                                     (''enhance_prompt'', opt_bool enhance_prompt),
                                     (''prompt'', JStr prompt)]))))"
proof (intro conjI impI)
  show "sora_valid_orientation orientation = ''landscape''"
    if "orientation \<notin> {Some ''portrait'', Some ''landscape''}"
    using that by (simp add: sora_valid_orientation_def)
  show "Some (sora_valid_orientation orientation) = orientation"
    if "orientation \<in> {Some ''portrait'', Some ''landscape''}"
    using that by (auto simp: sora_valid_orientation_def)
  show "sora_valid_duration duration = 15" if "duration \<notin> {Some 15, Some 25}"
    using that by (simp add: sora_valid_duration_def)
  show "Some (sora_valid_duration duration) = duration" if "duration \<in> {Some 15, Some 25}"
    using that by (auto simp: sora_valid_duration_def)
  show "veo_valid_aspect_ratio ratio = ''16:9''" if "ratio \<notin> {Some ''16:9'', Some ''9:16''}"
    using that by (simp add: veo_valid_aspect_ratio_def)
  show "Some (veo_valid_aspect_ratio ratio) = ratio" if "ratio \<in> {Some ''16:9'', Some ''9:16''}"
    using that by (auto simp: veo_valid_aspect_ratio_def)
  show "sora_create_video sora net prompt orientation duration watermark private_flag images =
       sora_create_video sora net prompt (Some (sora_valid_orientation orientation))
         (Some (sora_valid_duration duration)) watermark private_flag images"
    by (rule sora_create_video_valid)
  show "veo_create_video veo net' prompt model_arg ratio enhance_prompt enable_upsample images =
       veo_create_video veo net' prompt model_arg (Some (veo_valid_aspect_ratio ratio))
         enhance_prompt enable_upsample images"
    by (rule veo_create_video_valid)
next
  assume key: "\<not> no_key (api_key sora)"
  show "\<exists>payload.
           snd (sora_create_video sora net prompt orientation duration watermark private_flag images) =
             [json_post (create_endpoint sora) (bearer_accept_headers (api_key sora)) (JDict payload)] \<and>
           map_of payload ''orientation'' = Some (JStr (sora_valid_orientation orientation)) \<and>
           map_of payload ''duration'' = Some (JInt (sora_valid_duration duration)) \<and>
           (\<forall>body_text obj task.
              net (json_post (create_endpoint sora) (bearer_accept_headers (api_key sora)) (JDict payload))
                = Response 200 body_text (Inr (JDict obj)) \<and> map_of obj ''id'' = Some task \<and> truthy task
              \<longrightarrow> map_of (fst (sora_create_video sora net prompt orientation duration watermark
                               private_flag images)) ''success'' = Some (JBool True)
                  \<and> map_of (fst (sora_create_video sora net prompt orientation duration watermark
                               private_flag images)) ''metadata''
                      = Some (JDict [(''model'', JStr (model sora)),
                                     (''orientation'', JStr (sora_valid_orientation orientation)),
                                     (''duration'', JInt (sora_valid_duration duration)),
                                     (''prompt'', JStr prompt)]))"
  proof (intro exI [of _ "sora_payload sora prompt orientation duration watermark private_flag images"]
           conjI allI impI)
    fix body_text obj task
    assume "net (json_post (create_endpoint sora) (bearer_accept_headers (api_key sora))
                   (JDict (sora_payload sora prompt orientation duration watermark private_flag images)))
              = Response 200 body_text (Inr (JDict obj)) \<and> map_of obj ''id'' = Some task \<and> truthy task"
    then have a: "net (json_post (create_endpoint sora) (bearer_accept_headers (api_key sora))
                   (JDict (sora_payload sora prompt orientation duration watermark private_flag images)))
              = Response 200 body_text (Inr (JDict obj))" and b: "map_of obj ''id'' = Some task"
      and c: "truthy task"
      by simp_all
    have ok: "map_of (fst (sora_create_video sora net prompt orientation duration watermark
                               private_flag images)) ''success'' = Some (JBool True)
                  \<and> map_of (fst (sora_create_video sora net prompt orientation duration watermark
                               private_flag images)) ''metadata''
                      = Some (JDict [(''model'', JStr (model sora)),
                                     (''orientation'', JStr (sora_valid_orientation orientation)),
                                     (''duration'', JInt (sora_valid_duration duration)),
                                     (''prompt'', JStr prompt)])"
      by (rule sora_create_video_accepted [where net = net, OF key a b c])
    from ok show "map_of (fst (sora_create_video sora net prompt orientation duration watermark
                               private_flag images)) ''success'' = Some (JBool True)"
      by (rule conjunct1)
    from ok show "map_of (fst (sora_create_video sora net prompt orientation duration watermark
                               private_flag images)) ''metadata''
                      = Some (JDict [(''model'', JStr (model sora)),
                                     (''orientation'', JStr (sora_valid_orientation orientation)),
                                     (''duration'', JInt (sora_valid_duration duration)),
                                     (''prompt'', JStr prompt)])"
      by (rule conjunct2)
  qed (simp_all add: sora_create_video_request [OF key] sora_payload_options)
next
  assume key: "\<not> no_key (api_key veo)"
  show "\<exists>payload.
           snd (veo_create_video veo net' prompt model_arg ratio enhance_prompt enable_upsample images) =
             [json_post (create_endpoint veo) (bearer_accept_headers (api_key veo)) (JDict payload)] \<and>
           map_of payload ''aspect_ratio'' = Some (JStr (veo_valid_aspect_ratio ratio)) \<and>
           (\<forall>body_text obj task.
              net' (json_post (create_endpoint veo) (bearer_accept_headers (api_key veo)) (JDict payload))
                = Response 200 body_text (Inr (JDict obj)) \<and> map_of obj ''id'' = Some task \<and> truthy task
              \<longrightarrow> map_of (fst (veo_create_video veo net' prompt model_arg ratio enhance_prompt
                               enable_upsample images)) ''success'' = Some (JBool True)
                  \<and> map_of (fst (veo_create_video veo net' prompt model_arg ratio enhance_prompt
                               enable_upsample images)) ''metadata''
                      = Some (JDict [(''model'', JStr (veo_use_model veo model_arg)),
                                     (''aspect_ratio'', JStr (veo_valid_aspect_ratio ratio)),
                                     (''enhance_prompt'', opt_bool enhance_prompt),
                                     (''prompt'', JStr prompt)]))"
  proof (intro exI [of _ "veo_payload veo prompt model_arg ratio enhance_prompt enable_upsample images"]
           conjI allI impI)
    fix body_text obj task
    assume "net' (json_post (create_endpoint veo) (bearer_accept_headers (api_key veo))
                   (JDict (veo_payload veo prompt model_arg ratio enhance_prompt enable_upsample images)))
              = Response 200 body_text (Inr (JDict obj)) \<and> map_of obj ''id'' = Some task \<and> truthy task"
    then have a: "net' (json_post (create_endpoint veo) (bearer_accept_headers (api_key veo))
                   (JDict (veo_payload veo prompt model_arg ratio enhance_prompt enable_upsample images)))
              = Response 200 body_text (Inr (JDict obj))" and b: "map_of obj ''id'' = Some task"
      and c: "truthy task"
      by simp_all
    have ok: "map_of (fst (veo_create_video veo net' prompt model_arg ratio enhance_prompt
                               enable_upsample images)) ''success'' = Some (JBool True)
                  \<and> map_of (fst (veo_create_video veo net' prompt model_arg ratio enhance_prompt
                               enable_upsample images)) ''metadata''
                      = Some (JDict [(''model'', JStr (veo_use_model veo model_arg)),
                                     (''aspect_ratio'', JStr (veo_valid_aspect_ratio ratio)),
                                     (''enhance_prompt'', opt_bool enhance_prompt),
                                     (''prompt'', JStr prompt)])"
      by (rule veo_create_video_accepted [where net = net', OF key a b c])
    from ok show "map_of (fst (veo_create_video veo net' prompt model_arg ratio enhance_prompt
                               enable_upsample images)) ''success'' = Some (JBool True)"
      by (rule conjunct1)
    from ok show "map_of (fst (veo_create_video veo net' prompt model_arg ratio enhance_prompt
                               enable_upsample images)) ''metadata''
                      = Some (JDict [(''model'', JStr (veo_use_model veo model_arg)),
                                     (''aspect_ratio'', JStr (veo_valid_aspect_ratio ratio)),
                                     (''enhance_prompt'', opt_bool enhance_prompt),
                                     (''prompt'', JStr prompt)])"
      by (rule conjunct2)
  qed (simp_all add: veo_create_video_request [OF key] veo_payload_ratio)
qed

text \<open>
  A Sora request with the orientation \<open>sideways\<close> and the duration 10, and a VEO request
  with the aspect ratio \<open>4:3\<close>, on a provider that accepts every task: both succeed, with
  \<open>landscape\<close>, 15 and \<open>16:9\<close> in their metadata.
\<close>

theorem create_video_replaces_options_witness:
  "sora_valid_orientation (Some ''sideways'') = ''landscape''
   \<and> sora_valid_duration (Some 10) = 15
   \<and> veo_valid_aspect_ratio (Some ''4:3'') = ''16:9''
   \<and> sora_create_video (VideoService_init (Some ''sk-test'') ''https://yunwu.ai/v1'' ''sora-2'')
         (\<lambda>request. Response 200 ''ok'' (Inr (JDict [(''id'', JStr ''task-1''), (''status'', JStr ''pending'')])))
         ''a red cat'' (Some ''sideways'') (Some 10) False True None
       = sora_create_video (VideoService_init (Some ''sk-test'') ''https://yunwu.ai/v1'' ''sora-2'')
           (\<lambda>request. Response 200 ''ok'' (Inr (JDict [(''id'', JStr ''task-1''), (''status'', JStr ''pending'')])))
           ''a red cat'' (Some ''landscape'') (Some 15) False True None
   \<and> map_of (fst (sora_create_video (VideoService_init (Some ''sk-test'') ''https://yunwu.ai/v1'' ''sora-2'')
         (\<lambda>request. Response 200 ''ok'' (Inr (JDict [(''id'', JStr ''task-1''), (''status'', JStr ''pending'')])))
         ''a red cat'' (Some ''sideways'') (Some 10) False True None)) ''success'' = Some (JBool True)
   \<and> map_of (fst (sora_create_video (VideoService_init (Some ''sk-test'') ''https://yunwu.ai/v1'' ''sora-2'')
         (\<lambda>request. Response 200 ''ok'' (Inr (JDict [(''id'', JStr ''task-1''), (''status'', JStr ''pending'')])))
         ''a red cat'' (Some ''sideways'') (Some 10) False True None)) ''metadata''
       = Some (JDict [(''model'', JStr ''sora-2''), (''orientation'', JStr ''landscape''),
                      (''duration'', JInt 15), (''prompt'', JStr ''a red cat'')])
   \<and> veo_create_video (VideoService_init (Some ''sk-test'') ''https://yunwu.ai'' ''veo3-fast'')
         (\<lambda>request. Response 200 ''ok'' (Inr (JDict [(''id'', JStr ''task-2''), (''status'', JStr ''pending'')])))
         ''a red cat'' (Some ''veo3'') (Some ''4:3'') (Some True) (Some True) None
       = veo_create_video (VideoService_init (Some ''sk-test'') ''https://yunwu.ai'' ''veo3-fast'')
           (\<lambda>request. Response 200 ''ok'' (Inr (JDict [(''id'', JStr ''task-2''), (''status'', JStr ''pending'')])))
           ''a red cat'' (Some ''veo3'') (Some ''16:9'') (Some True) (Some True) None
   \<and> map_of (fst (veo_create_video (VideoService_init (Some ''sk-test'') ''https://yunwu.ai'' ''veo3-fast'')
         (\<lambda>request. Response 200 ''ok'' (Inr (JDict [(''id'', JStr ''task-2''), (''status'', JStr ''pending'')])))
         ''a red cat'' (Some ''veo3'') (Some ''4:3'') (Some True) (Some True) None)) ''success'' = Some (JBool True)
   \<and> map_of (fst (veo_create_video (VideoService_init (Some ''sk-test'') ''https://yunwu.ai'' ''veo3-fast'')
         (\<lambda>request. Response 200 ''ok'' (Inr (JDict [(''id'', JStr ''task-2''), (''status'', JStr ''pending'')])))
         ''a red cat'' (Some ''veo3'') (Some ''4:3'') (Some True) (Some True) None)) ''metadata''
       = Some (JDict [(''model'', JStr ''veo3''), (''aspect_ratio'', JStr ''16:9''),
                      (''enhance_prompt'', JBool True), (''prompt'', JStr ''a red cat'')])"
proof -
  have m: "model (VideoService_init (Some ''sk-test'') ''https://yunwu.ai/v1'' ''sora-2'') = ''sora-2''"
    "veo_use_model (VideoService_init (Some ''sk-test'') ''https://yunwu.ai'' ''veo3-fast'') (Some ''veo3'') = ''veo3''"
    by (simp_all add: VideoService_init_def veo_use_model_def truthy_str_def)
  show ?thesis
    using create_video_replaces_options
      [where sora = "VideoService_init (Some ''sk-test'') ''https://yunwu.ai/v1'' ''sora-2''"
         and veo = "VideoService_init (Some ''sk-test'') ''https://yunwu.ai'' ''veo3-fast''"
         and net = "\<lambda>request. Response 200 ''ok'' (Inr (JDict [(''id'', JStr ''task-1''), (''status'', JStr ''pending'')]))"
         and net' = "\<lambda>request. Response 200 ''ok'' (Inr (JDict [(''id'', JStr ''task-2''), (''status'', JStr ''pending'')]))"
         and prompt = "''a red cat''" and orientation = "Some ''sideways''" and duration = "Some 10"
         and watermark = False and private_flag = True and images = None
         and model_arg = "Some ''veo3''" and ratio = "Some ''4:3''"
         and enhance_prompt = "Some True" and enable_upsample = "Some True"]
    by (auto simp add: api_key_init no_key_def truthy_str_def m opt_bool_def)
qed

subsection \<open>The reference image normaliser\<close>

lemma ensure_data_url_fixed:
  assumes "py_strip t = t" "startswith t ''data:''"
  shows "ensure_data_url t = t"
  using assms by (simp add: ensure_data_url_def Let_def)

text \<open>
  C9. The reference image normaliser of the Doubao adapter is idempotent: applying
  \<open>_ensure_data_url\<close> to its own output gives that output again, for every input
  string.
\<close>

theorem ensure_data_url_idempotent:
  "ensure_data_url (ensure_data_url s) = ensure_data_url s"
proof (cases "s = []")
  case True
  then show ?thesis
    by (simp add: ensure_data_url_def)
next
  case False
  define t where "t = py_strip s"
  show ?thesis
  proof (cases "startswith t ''data:''")
    case True
    with False have r: "ensure_data_url s = t"
      by (simp add: ensure_data_url_def Let_def t_def)
    have "py_strip t = t"
      by (simp add: t_def py_strip_idem)
    then show ?thesis
      unfolding r using True by (rule ensure_data_url_fixed)
  next
    case nodata: False
    define r where "r = ''data:image/png;base64,'' @ t"
    have res: "ensure_data_url s = r"
      using False nodata by (simp add: ensure_data_url_def Let_def t_def r_def)
    have "\<not> is_space (last r)"
    proof (cases "t = []")
      case True
      then show ?thesis
        by (simp add: r_def is_space_def)
    next
      case False
      then have "\<not> is_space (last t)"
        using py_strip_ends [of s] by (simp add: t_def)
      with False show ?thesis
        by (simp add: r_def)
    qed
    moreover have "\<not> is_space (hd r)"
      by (simp add: r_def is_space_def)
    moreover have "r \<noteq> []"
      by (simp add: r_def)
    ultimately have "py_strip r = r"
      by (intro py_strip_nonspace_ends)
    moreover have "startswith r ''data:''"
      by (simp add: r_def startswith_def)
    ultimately show ?thesis
      unfolding res by (rule ensure_data_url_fixed)
  qed
qed

end
